theory Spec2Isabelle
  imports Complex_Main "HOL-Library.Word"
begin

chapter \<open>The model\<close>

section \<open>JavaScript values used by the radar pipeline\<close>

text \<open>
  The TypeScript sources compute with JavaScript numbers and strings. Geometry (canvas
  sizes, headings, ranges, pixel scales) is modelled over \<^typ>\<open>real\<close>: the formulas are
  the source's, IEEE rounding is abstracted, and the non-finite values a division by zero
  produces in JavaScript are written out as \<open>None\<close> wherever the source divides by a
  quantity that can be zero. Strings are \<^typ>\<open>string\<close>; a character stands for one
  code unit. Samples of a spoke are bytes (\<open>Uint8Array\<close>), modelled as \<^typ>\<open>8 word\<close>.
\<close>

type_synonym byte = "8 word"

subsection \<open>Printing numbers\<close>

definition digit :: "nat \<Rightarrow> char" where
  "digit d = ''0123456789'' ! (d mod 10)"

text \<open>Decimal digits of a natural number, as \<open>Number.prototype.toString\<close> prints an
  integral number (below the magnitude \<open>10^21\<close>, where JavaScript changes to exponent
  notation).\<close>

function show_nat :: "nat \<Rightarrow> string" where
  "show_nat n = (if n < 10 then [digit n] else show_nat (n div 10) @ [digit n])"
  by pat_completeness auto
termination
  by (relation "measure (\<lambda>n. n)") auto

declare show_nat.simps [simp del]

definition show_int :: "int \<Rightarrow> string" where
  "show_int k = (if k < 0 then ''-'' @ show_nat (nat (- k)) else show_nat (nat k))"

text \<open>\<open>Math.round\<close>: the nearest integer, a tie going up.\<close>

definition Math_round :: "real \<Rightarrow> int" where
  "Math_round x = \<lfloor>x + 1 / 2\<rfloor>"

text \<open>\<open>x.toFixed(1)\<close>: the integer \<open>n\<close> with \<open>n / 10\<close> nearest to \<open>|x|\<close> (the larger
  one on a tie), printed with one digit after the point, and the sign of \<open>x\<close> in front.
  JavaScript decides the tie on the double, so a decimal such as 1.15, which no double
  is, goes the way its double lies; here it is a tie and goes up.\<close>

definition toFixed1 :: "real \<Rightarrow> string" where
  "toFixed1 x =
     (let n = nat \<lfloor>\<bar>x\<bar> * 10 + 1 / 2\<rfloor>
      in (if x < 0 then ''-'' else []) @ show_nat (n div 10) @ ''.'' @ [digit n])"

section \<open>Range labels: \<open>formatRange\<close>\<close>

text \<open>
  \<^verbatim>\<open>radar-display.component.ts\<close>, \<open>formatRange\<close>: nautical miles from 1852 m on (an
  integral number of miles printed as it is, any other with one decimal), kilometres with
  one decimal from 1000 m on, rounded metres below.
\<close>

definition formatRange :: "real \<Rightarrow> string" where
  "formatRange rangeInMeters =
     (if rangeInMeters \<ge> 1852 then
        (let nm = rangeInMeters / 1852
         in if nm = of_int \<lfloor>nm\<rfloor> then show_int \<lfloor>nm\<rfloor> @ '' nm''
            else toFixed1 nm @ '' nm'')
      else if rangeInMeters \<ge> 1000 then toFixed1 (rangeInMeters / 1000) @ '' km''
      else show_int (Math_round rangeInMeters) @ '' m'')"

section \<open>The colour table: \<open>hexToRGBA\<close> and \<open>expandLegend\<close>\<close>

text \<open>
  A channel of a colour is a JavaScript number that \<open>parseInt\<close> returned or a literal
  \<open>0\<close> or \<open>255\<close>: an integer, or \<open>NaN\<close> when no digit could be read. \<open>None\<close> is
  \<open>NaN\<close> (negative zero is not told apart from zero: the channels are only compared
  with \<open>0\<close> and printed).
\<close>

type_synonym jsnum = "int option"
type_synonym rgba = "jsnum list"

text \<open>White space that \<open>parseInt\<close> skips, among the code units below 256.\<close>

definition isWhiteSpace :: "char \<Rightarrow> bool" where
  "isWhiteSpace c = ((of_char c :: nat) \<in> {9, 10, 11, 12, 13, 32, 160})"

definition hexDigit :: "char \<Rightarrow> nat option" where
  "hexDigit c =
     (let k = (of_char c :: nat)
      in if 48 \<le> k \<and> k \<le> 57 then Some (k - 48)
         else if 97 \<le> k \<and> k \<le> 102 then Some (k - 87)
         else if 65 \<le> k \<and> k \<le> 70 then Some (k - 55)
         else None)"

definition hexValue :: "string \<Rightarrow> nat" where
  "hexValue z = foldl (\<lambda>acc c. 16 * acc + (case hexDigit c of Some v \<Rightarrow> v | None \<Rightarrow> 0)) 0 z"

text \<open>
  \<open>parseInt(s, 16)\<close>: leading white space is dropped, then one sign, then a prefix
  \<open>0x\<close> or \<open>0X\<close>; the longest run of hexadecimal digits that follows is the value, and
  \<open>NaN\<close> is returned when that run is empty.
\<close>

definition parseInt16 :: "string \<Rightarrow> jsnum" where
  "parseInt16 s =
     (let s1 = dropWhile isWhiteSpace s;
          negative = (take 1 s1 = ''-'');
          s2 = (if take 1 s1 = ''+'' \<or> take 1 s1 = ''-'' then drop 1 s1 else s1);
          s3 = (if take 2 s2 = ''0x'' \<or> take 2 s2 = ''0X'' then drop 2 s2 else s2);
          z = takeWhile (\<lambda>c. hexDigit c \<noteq> None) s3
      in if z = [] then None
         else Some (if negative then - int (hexValue z) else int (hexValue z)))"

text \<open>The slices \<open>hex.slice(i, i + 2)\<close> for \<open>i = 1, 3, 5, ...\<close> below \<open>hex.length\<close>,
  given the string without its first character.\<close>

fun slices2 :: "string \<Rightarrow> string list" where
  "slices2 [] = []"
| "slices2 [a] = [[a]]"
| "slices2 (a # b # cs) = [a, b] # slices2 cs"

text \<open>The padding loop \<open>while (rgba.length < 4) rgba.push(rgba.length === 3 ? 255 : 0)\<close>.\<close>

function padRGBA :: "rgba \<Rightarrow> rgba" where
  "padRGBA c =
     (if length c < 4 then padRGBA (c @ [if length c = 3 then Some 255 else Some 0]) else c)"
  by pat_completeness auto
termination
  by (relation "measure (\<lambda>c. 4 - length c)") auto

declare padRGBA.simps [simp del]

definition hexToRGBA :: "string \<Rightarrow> rgba" where
  "hexToRGBA hex = padRGBA (map parseInt16 (slices2 (drop 1 hex)))"

text \<open>
  The sparse legend \<open>{ [key: number]: { color: string } }\<close>: the colour string of each
  intensity that has an entry. An entry is an object, so \<open>if (legend[i])\<close> asks whether
  the key is there.
\<close>

type_synonym sparse_legend = "nat \<rightharpoonup> string"

definition transparent :: rgba where
  "transparent = [Some 0, Some 0, Some 0, Some 0]"

definition legendEntry :: "sparse_legend \<Rightarrow> nat \<Rightarrow> rgba" where
  "legendEntry lg i = (case lg i of Some color \<Rightarrow> hexToRGBA color | None \<Rightarrow> transparent)"

text \<open>The loop \<open>for (let i = 0; i < 256; i++) this.legend.push(...)\<close>.\<close>

function expandLoop :: "sparse_legend \<Rightarrow> nat \<Rightarrow> rgba list \<Rightarrow> rgba list" where
  "expandLoop lg i acc =
     (if i < 256 then expandLoop lg (i + 1) (acc @ [legendEntry lg i]) else acc)"
  by pat_completeness auto
termination
  by (relation "measure (\<lambda>(lg, i, acc). 256 - i)") auto

declare expandLoop.simps [simp del]

text \<open>An assignment \<open>a[k] = v\<close> to a JavaScript array: past the end the array grows, the
  slots in between staying empty (they read as \<open>undefined\<close>, here \<open>None\<close>).\<close>

definition js_assign :: "rgba \<Rightarrow> nat \<Rightarrow> jsnum \<Rightarrow> rgba" where
  "js_assign c k v =
     (if k < length c then c[k := v] else c @ replicate (k - length c) None @ [v])"

text \<open>\<open>if (this.legend[0]) { this.legend[0][3] = 255; }\<close>: an entry is an array, which is
  truthy, so the test asks whether the table has a first entry.\<close>

definition forceOpaque :: "rgba list \<Rightarrow> rgba list" where
  "forceOpaque t = (case t of [] \<Rightarrow> [] | c # cs \<Rightarrow> js_assign c 3 (Some 255) # cs)"

text \<open>\<open>RadarDisplayComponent.expandLegend\<close> (\<^verbatim>\<open>radar-display.component.ts\<close>): the table
  assigned to \<open>this.legend\<close>.\<close>

definition expandLegend :: "sparse_legend \<Rightarrow> rgba list" where
  "expandLegend lg = forceOpaque (expandLoop lg 0 [])"

text \<open>\<open>RadarLayerComponent.expandLegend\<close> (the map layer): the same loop, and no
  assignment to the first entry afterwards.\<close>

definition layer_expandLegend :: "sparse_legend \<Rightarrow> rgba list" where
  "layer_expandLegend lg = expandLoop lg 0 []"

text \<open>An RGBA entry: four channels, each an integer from 0 to 255. A colour string is
  well formed when it is \<open>#\<close> followed by six or eight hexadecimal digits.\<close>

definition byteChannel :: "jsnum \<Rightarrow> bool" where
  "byteChannel v = (case v of Some n \<Rightarrow> 0 \<le> n \<and> n \<le> 255 | None \<Rightarrow> False)"

definition isRGBA :: "rgba \<Rightarrow> bool" where
  "isRGBA c = (length c = 4 \<and> list_all byteChannel c)"

definition wellFormedColor :: "string \<Rightarrow> bool" where
  "wellFormedColor hex =
     (case hex of
        [] \<Rightarrow> False
      | c # digits \<Rightarrow>
          c = CHR ''#'' \<and> (length digits = 6 \<or> length digits = 8) \<and>
          list_all (\<lambda>x. hexDigit x \<noteq> None) digits)"

section \<open>Errors\<close>

text \<open>
  What the code can throw or reject with: the language's own \<open>TypeError\<close> (a property
  read on \<open>undefined\<close>) and \<open>RangeError\<close> (an invalid array length), an
  \<open>Error(message)\<close> the code constructs, a bare string given to \<open>reject\<close>, and a failure
  of the platform (network, JSON, canvas, socket), which carries the text that
  \<open>`${error}`\<close> prints for it.
\<close>

datatype js_error =
    TypeError
  | RangeError
  | Error string
  | Rejected string
  | PlatformError string

section \<open>The radar display component\<close>

text \<open>
  \<^verbatim>\<open>radar-display.component.ts\<close>. The fields \<open>angle\<close>, \<open>range\<close>, ... of the two interfaces
  carry a prefix here, since both interfaces have a \<open>range\<close>.
\<close>

record RadarSpoke =
  spoke_angle :: int
  spoke_bearing :: "real option"
  spoke_range :: real
  spoke_data :: "byte list"

record RadarConfig =
  cfg_spokes :: int
  cfg_maxSpokeLen :: int
  cfg_legend :: sparse_legend
  cfg_range :: real

record MapBounds =
  north :: real
  south :: real
  east :: real
  west :: real

record RadarDisplayMode =
  overlay :: bool
  centerPosition :: "(real \<times> real) option"
  mapBounds :: "MapBounds option"
  mapZoom :: "real option"
  pixelsPerMeter :: "real option"

text \<open>A number that may fail to be finite: \<open>None\<close> is \<open>NaN\<close> or an infinity.\<close>

type_synonym jsreal = "real option"

definition js_div :: "real \<Rightarrow> real \<Rightarrow> jsreal" where
  "js_div x y = (if y = 0 then None else Some (x / y))"

definition trunc :: "real \<Rightarrow> int" where
  "trunc r = (if 0 \<le> r then \<lfloor>r\<rfloor> else \<lceil>r\<rceil>)"

text \<open>The remainder operator \<open>x % y\<close>: the quotient is cut towards zero, so the result has
  the sign of \<open>x\<close>; \<open>x % 0\<close> is \<open>NaN\<close>.\<close>

definition js_rem :: "real \<Rightarrow> real \<Rightarrow> jsreal" where
  "js_rem x y = (if y = 0 then None else Some (x - y * of_int (trunc (x / y))))"

text \<open>The calls made on the 2D context of the radar canvas, in the order they are made.\<close>

datatype canvas_op =
    ClearRect real real real real
  | Save
  | Translate jsreal jsreal
  | Rotate jsreal
  | FillStyle jsnum jsnum jsnum real
  | FillRect real real real real
  | Restore

text \<open>
  The component's state. \<open>spokeDataBuffer\<close> is a JavaScript array used through
  \<open>buffer[angle]\<close> only: a partial map from the index to the stored \<open>Uint8Array\<close>.
  \<open>animationFrames\<close> counts the callbacks \<open>() => this.render()\<close> handed to
  \<open>requestAnimationFrame\<close> that have not run yet. The background canvas (range rings,
  labels, boat icon) is written by \<open>drawBackground\<close> only and is left out.
\<close>

record RadarDisplay =
  width :: real
  height :: real
  boatHeading :: real
  displayMode :: RadarDisplayMode
  centerX :: jsreal
  centerY :: jsreal
  maxRadius :: real
  config :: "RadarConfig option"
  legend :: "rgba list"
  spokeDataBuffer :: "int \<rightharpoonup> byte list"
  pendingRender :: bool
  animationFrames :: nat
  radarCtx :: "canvas_op list"

definition RANGE_SCALE :: real where
  "RANGE_SCALE = 9 / 10"

definition centred :: "RadarDisplay \<Rightarrow> RadarDisplay" where
  "centred d =
     d\<lparr>centerX := Some (width d / 2), centerY := Some (height d / 2),
       maxRadius := min (width d / 2) (height d / 2) * RANGE_SCALE\<rparr>"

text \<open>\<open>updateCenterAndRadius\<close>. In integrated mode the boat's position is placed between
  the map bounds; \<open>pixelsPerMeter\<close> counts as given when it is not zero.\<close>

definition updateCenterAndRadius :: "RadarDisplay \<Rightarrow> RadarDisplay" where
  "updateCenterAndRadius d =
     (if overlay (displayMode d) then centred d
      else
        (case (centerPosition (displayMode d), mapBounds (displayMode d),
               pixelsPerMeter (displayMode d)) of
           (Some (lon, lat), Some b, Some ppm) \<Rightarrow>
             if ppm = 0 then centred d
             else
               d\<lparr>centerX := map_option (\<lambda>q. q * width d)
                               (js_div (lon - west b) (east b - west b)),
                 centerY := map_option (\<lambda>q. q * height d)
                               (js_div (north b - lat) (north b - south b)),
                 maxRadius :=
                   (case config d of
                      Some cfg \<Rightarrow> (cfg_range cfg * ppm) * RANGE_SCALE
                    | None \<Rightarrow> min (width d) (height d) / 4)\<rparr>
         | _ \<Rightarrow> centred d))"

text \<open>The component after construction and \<open>ngOnInit\<close>, for given inputs.\<close>

definition ngOnInit :: "real \<Rightarrow> real \<Rightarrow> real \<Rightarrow> RadarDisplayMode \<Rightarrow> RadarDisplay" where
  "ngOnInit w h heading mode =
     updateCenterAndRadius
       \<lparr>width = w, height = h, boatHeading = heading, displayMode = mode,
        centerX = None, centerY = None, maxRadius = 0, config = None, legend = [],
        spokeDataBuffer = Map.empty, pendingRender = False, animationFrames = 0,
        radarCtx = []\<rparr>"

text \<open>
  \<open>setRadarConfig\<close>. The last statement, \<open>new Array(config.spokes)\<close>, throws a
  \<open>RangeError\<close> unless the length is an integer from 0 to \<open>2^32 - 1\<close>; the assignments
  before it have been made by then. The result is the error, if any, and the state.
\<close>

definition setRadarConfig :: "RadarDisplay \<Rightarrow> RadarConfig \<Rightarrow> js_error option \<times> RadarDisplay" where
  "setRadarConfig d cfg =
     (let d1 = updateCenterAndRadius
                 (d\<lparr>config := Some cfg, legend := expandLegend (cfg_legend cfg)\<rparr>)
      in if cfg_spokes cfg < 0 \<or> 2 ^ 32 \<le> cfg_spokes cfg then (Some RangeError, d1)
         else (None, d1\<lparr>spokeDataBuffer := Map.empty\<rparr>))"

definition updateDisplayMode :: "RadarDisplay \<Rightarrow> RadarDisplayMode \<Rightarrow> RadarDisplay" where
  "updateDisplayMode d mode = updateCenterAndRadius (d\<lparr>displayMode := mode\<rparr>)"

definition clearDisplay :: "RadarDisplay \<Rightarrow> RadarDisplay" where
  "clearDisplay d = d\<lparr>radarCtx := radarCtx d @ [ClearRect 0 0 (width d) (height d)]\<rparr>"

text \<open>
  \<open>drawSpoke\<close> (the buffered version): nothing happens without a config or with an empty
  colour table; otherwise a copy of the samples is stored under the spoke's angle
  (\<open>this.spokeDataBuffer[spoke.angle] = new Uint8Array(spoke.data)\<close>, here \<open>store\<close>), and
  a render is requested unless one is pending.
\<close>

definition store :: "(int \<rightharpoonup> byte list) \<Rightarrow> RadarSpoke \<Rightarrow> (int \<rightharpoonup> byte list)" where
  "store buffer spoke = buffer(spoke_angle spoke \<mapsto> spoke_data spoke)"

definition drawSpoke :: "RadarDisplay \<Rightarrow> RadarSpoke \<Rightarrow> RadarDisplay" where
  "drawSpoke d spoke =
     (if config d = None \<or> legend d = [] then d
      else
        (let d1 = d\<lparr>spokeDataBuffer := store (spokeDataBuffer d) spoke\<rparr>
         in if \<not> pendingRender d1
            then d1\<lparr>pendingRender := True, animationFrames := animationFrames d1 + 1\<rparr>
            else d1))"

text \<open>The angle of a wedge: \<open>adjustedAngle\<close>, \<open>angleRad\<close>, \<open>headingRad\<close> and
  \<open>finalAngle\<close> of \<open>renderSingleSpoke\<close>.\<close>

definition adjustedAngle :: "RadarConfig \<Rightarrow> int \<Rightarrow> jsreal" where
  "adjustedAngle cfg spokeAngle =
     js_rem (of_int spokeAngle + (of_int (cfg_spokes cfg) * 3) / 4) (of_int (cfg_spokes cfg))"

definition angleRad :: "RadarConfig \<Rightarrow> int \<Rightarrow> jsreal" where
  "angleRad cfg spokeAngle =
     map_option (\<lambda>adj. (2 * pi * adj) / of_int (cfg_spokes cfg)) (adjustedAngle cfg spokeAngle)"

definition headingRad :: "real \<Rightarrow> real" where
  "headingRad heading = (heading * pi) / 180"

definition finalAngle :: "real \<Rightarrow> RadarConfig \<Rightarrow> int \<Rightarrow> jsreal" where
  "finalAngle heading cfg spokeAngle =
     map_option (\<lambda>rad. rad - headingRad heading) (angleRad cfg spokeAngle)"

text \<open>Reading \<open>a[k]\<close>: \<open>undefined\<close> past the end.\<close>

definition js_index :: "'a list \<Rightarrow> nat \<Rightarrow> 'a option" where
  "js_index xs k = (if k < length xs then Some (xs ! k) else None)"

text \<open>A channel \<open>color[k]\<close>; a missing one is \<open>undefined\<close>, which compares and prints as
  no number does, like \<open>NaN\<close>.\<close>

definition channel :: "rgba \<Rightarrow> nat \<Rightarrow> jsnum" where
  "channel color k = (case js_index color k of Some v \<Rightarrow> v | None \<Rightarrow> None)"

definition visible :: "rgba \<Rightarrow> bool" where
  "visible color = (case channel color 3 of Some alpha \<Rightarrow> 0 < alpha | None \<Rightarrow> False)"

text \<open>What one sample draws: the fill style, with the alpha divided by 255, and a cell of
  one pixel height at its distance from the centre.\<close>

definition cellOps :: "rgba \<Rightarrow> real \<Rightarrow> nat \<Rightarrow> canvas_op list" where
  "cellOps color pixels i =
     (if visible color
      then [FillStyle (channel color 0) (channel color 1) (channel color 2)
              (case channel color 3 of Some alpha \<Rightarrow> of_int alpha / 255 | None \<Rightarrow> 0),
            FillRect (of_nat i * pixels) (- (1 / 2)) pixels 1]
      else [])"

text \<open>The loop over the samples, from index \<open>i\<close> on. \<open>this.legend[Math.min(value, 255)]\<close>
  is \<open>undefined\<close> when the table is too short, and reading \<open>color[3]\<close> then throws.\<close>

fun sampleOps :: "rgba list \<Rightarrow> real \<Rightarrow> nat \<Rightarrow> byte list \<Rightarrow> js_error + canvas_op list" where
  "sampleOps lgd pixels i [] = Inr []"
| "sampleOps lgd pixels i (v # vs) =
     (case js_index lgd (min (unat v) 255) of
        None \<Rightarrow> Inl TypeError
      | Some color \<Rightarrow>
          (case sampleOps lgd pixels (i + 1) vs of
             Inl e \<Rightarrow> Inl e
           | Inr rest \<Rightarrow> Inr (cellOps color pixels i @ rest)))"

text \<open>\<open>pixelsPerDataPoint\<close>; it is used for a spoke with at least one sample only.\<close>

definition pixelsPerDataPoint :: "RadarDisplay \<Rightarrow> byte list \<Rightarrow> real" where
  "pixelsPerDataPoint d spokeData = (maxRadius d * RANGE_SCALE) / of_nat (length spokeData)"

text \<open>\<open>renderSingleSpoke\<close>: \<open>scaledPixelsPerDataPoint\<close> is \<open>pixelsPerDataPoint\<close>.\<close>

definition renderSingleSpoke ::
  "RadarDisplay \<Rightarrow> RadarConfig \<Rightarrow> int \<Rightarrow> byte list \<Rightarrow> js_error + canvas_op list" where
  "renderSingleSpoke d cfg spokeAngle spokeData =
     (let scaledPixelsPerDataPoint = pixelsPerDataPoint d spokeData
      in case sampleOps (legend d) scaledPixelsPerDataPoint 0 spokeData of
           Inl e \<Rightarrow> Inl e
         | Inr cells \<Rightarrow>
             Inr ([Save, Translate (centerX d) (centerY d),
                   Rotate (finalAngle (boatHeading d) cfg spokeAngle)] @ cells @ [Restore]))"

text \<open>The loop \<open>for (let angle = 0; angle < this.config.spokes; angle++)\<close> of \<open>render\<close>,
  from \<open>angle\<close> on, adding to the calls made so far.\<close>

function renderLoop ::
  "RadarDisplay \<Rightarrow> RadarConfig \<Rightarrow> int \<Rightarrow> canvas_op list \<Rightarrow> js_error + canvas_op list" where
  "renderLoop d cfg angle ops =
     (if angle < cfg_spokes cfg then
        (case spokeDataBuffer d angle of
           None \<Rightarrow> renderLoop d cfg (angle + 1) ops
         | Some spokeData \<Rightarrow>
             (case renderSingleSpoke d cfg angle spokeData of
                Inl e \<Rightarrow> Inl e
              | Inr drawn \<Rightarrow> renderLoop d cfg (angle + 1) (ops @ drawn)))
      else Inr ops)"
  by pat_completeness auto
termination
  by (relation "measure (\<lambda>(d, cfg, angle, ops). nat (cfg_spokes cfg - angle))") auto

declare renderLoop.simps [simp del]

text \<open>\<open>render\<close>: the whole canvas is cleared and every stored spoke is drawn again.\<close>

definition render :: "RadarDisplay \<Rightarrow> js_error + RadarDisplay" where
  "render d =
     (case config d of
        None \<Rightarrow> Inr (d\<lparr>pendingRender := False\<rparr>)
      | Some cfg \<Rightarrow>
          if legend d = [] then Inr (d\<lparr>pendingRender := False\<rparr>)
          else
            (case renderLoop d cfg 0 (radarCtx d @ [ClearRect 0 0 (width d) (height d)]) of
               Inl e \<Rightarrow> Inl e
             | Inr ops \<Rightarrow> Inr (d\<lparr>radarCtx := ops, pendingRender := False\<rparr>)))"

text \<open>A display refresh: the callbacks registered since the last one run, one after the
  other.\<close>

fun runFrames :: "nat \<Rightarrow> RadarDisplay \<Rightarrow> js_error + RadarDisplay" where
  "runFrames 0 d = Inr d"
| "runFrames (Suc k) d = (case render d of Inl e \<Rightarrow> Inl e | Inr d' \<Rightarrow> runFrames k d')"

definition animationFrame :: "RadarDisplay \<Rightarrow> js_error + RadarDisplay" where
  "animationFrame d = runFrames (animationFrames d) (d\<lparr>animationFrames := 0\<rparr>)"

text \<open>The states the component can be in: it is initialised, and then configured, fed
  spokes, given a new display mode, given new values of its inputs, refreshed and cleared
  in any order.\<close>

inductive reachable :: "RadarDisplay \<Rightarrow> bool" where
  init: "reachable (ngOnInit w h heading mode)"
| configured: "reachable d \<Longrightarrow> reachable (snd (setRadarConfig d cfg))"
| spoke: "reachable d \<Longrightarrow> reachable (drawSpoke d s)"
| mode: "reachable d \<Longrightarrow> reachable (updateDisplayMode d m)"
| inputs: "reachable d \<Longrightarrow>
     reachable (d\<lparr>width := w, height := h, boatHeading := heading, displayMode := m\<rparr>)"
| frame: "reachable d \<Longrightarrow> animationFrame d = Inr d' \<Longrightarrow> reachable d'"
| cleared: "reachable d \<Longrightarrow> reachable (clearDisplay d)"

text \<open>
  The \<open>drawSpoke\<close> of the earlier version of the component, which draws a spoke at
  once: \<open>rangeScale\<close> is the spoke's range over the config's, or 1 when the config's
  range is 0. \<open>createImageData(spokeLength, 1)\<close> throws for a spoke without samples.
\<close>

definition rangeScale :: "RadarConfig \<Rightarrow> RadarSpoke \<Rightarrow> real" where
  "rangeScale cfg spoke = (if cfg_range cfg = 0 then 1 else spoke_range spoke / cfg_range cfg)"

definition drawSpoke_direct :: "RadarDisplay \<Rightarrow> RadarSpoke \<Rightarrow> js_error + RadarDisplay" where
  "drawSpoke_direct d spoke =
     (case config d of
        None \<Rightarrow> Inr d
      | Some cfg \<Rightarrow>
          if legend d = [] then Inr d
          else
            (let scaledPixelsPerDataPoint =
                   pixelsPerDataPoint d (spoke_data spoke) * rangeScale cfg spoke
             in if spoke_data spoke = [] then Inl (PlatformError ''IndexSizeError'')
                else
                  (case sampleOps (legend d) scaledPixelsPerDataPoint 0 (spoke_data spoke) of
                     Inl e \<Rightarrow> Inl e
                   | Inr cells \<Rightarrow>
                       Inr (d\<lparr>radarCtx := radarCtx d @
                              [Save, Translate (centerX d) (centerY d),
                               Rotate (finalAngle (boatHeading d) cfg (spoke_angle spoke))] @
                              cells @ [Restore]\<rparr>))))"

text \<open>The samples of the spoke received last for an angle, if there is one: what the
  specification calls the most recently processed spoke with that angle.\<close>

definition mostRecent :: "int \<Rightarrow> RadarSpoke list \<Rightarrow> byte list option" where
  "mostRecent a spokes =
     map_option spoke_data (find (\<lambda>s. spoke_angle s = a) (rev spokes))"

text \<open>The remainder of the specification's formula for the angle, \<open>x mod y\<close> for real
  numbers: what is left of \<open>x\<close> after the multiples of \<open>y\<close> below it.\<close>

definition real_mod :: "real \<Rightarrow> real \<Rightarrow> real" where
  "real_mod x y = x - y * of_int \<lfloor>x / y\<rfloor>"

text \<open>Two facts about every state the component can be in: the colour table is empty
  before the first config and has 256 entries afterwards, and a render callback is
  registered exactly while \<open>pendingRender\<close> is set.\<close>

definition tableOK :: "RadarDisplay \<Rightarrow> bool" where
  "tableOK d = (if config d = None then legend d = [] else length (legend d) = 256)"

definition scheduleOK :: "RadarDisplay \<Rightarrow> bool" where
  "scheduleOK d = (animationFrames d = (if pendingRender d then 1 else 0))"

section \<open>Inputs used in the examples\<close>

text \<open>The component's default inputs, \<open>width = 600\<close>, \<open>height = 600\<close>,
  \<open>boatHeading = 0\<close> and \<open>displayMode = { overlay: true }\<close>; a config of four spokes whose
  legend colours intensity 1 red; and the component after \<open>setRadarConfig\<close> with it.\<close>

definition overlayMode :: RadarDisplayMode where
  "overlayMode =
     \<lparr>overlay = True, centerPosition = None, mapBounds = None, mapZoom = None,
      pixelsPerMeter = None\<rparr>"

definition exampleConfig :: RadarConfig where
  "exampleConfig =
     \<lparr>cfg_spokes = 4, cfg_maxSpokeLen = 2, cfg_legend = [1 \<mapsto> ''#ff0000''],
      cfg_range = 1852\<rparr>"

definition exampleDisplay :: RadarDisplay where
  "exampleDisplay = snd (setRadarConfig (ngOnInit 600 600 0 overlayMode) exampleConfig)"

definition exampleSpoke :: "int \<Rightarrow> real \<Rightarrow> byte list \<Rightarrow> RadarSpoke" where
  "exampleSpoke a r samples =
     \<lparr>spoke_angle = a, spoke_bearing = None, spoke_range = r, spoke_data = samples\<rparr>"

text \<open>The nominal angle of a bin in the specification's words:
  \<open>theta = 2\<pi> \<sqdot> ((angle + spokes \<sqdot> 3/4) mod spokes) / spokes\<close>.\<close>

definition nominalTheta :: "int \<Rightarrow> int \<Rightarrow> real" where
  "nominalTheta n a =
     2 * pi * real_mod (of_int a + of_int n * 3 / 4) (of_int n) / of_int n"

section \<open>The radar service\<close>

text \<open>
  \<^verbatim>\<open>radar.service.ts\<close>. The service runs on one thread; its code runs in pieces: a call
  of a method up to its first \<open>await\<close>, the rest of the method when the awaited promise
  settles, and the handlers of socket events and timers. Each piece is a function on the
  state below; what the platform answers (the discovery response, the socket events, the
  firing of a timer) is an argument of the piece that receives it.
\<close>

text \<open>A value of the discovery object, as the JSON gives it, and the \<open>RadarServerInfo\<close>
  the service makes of it with \<open>{ id: radarId, ...radars[radarId] }\<close>: an \<open>id\<close> among the
  JSON's fields replaces the key. The field \<open>controls\<close> is never read and is left out.\<close>

record RadarJson =
  json_id :: "string option"
  json_name :: string
  json_streamUrl :: string
  json_controlUrl :: string
  json_spokes :: int
  json_maxSpokeLen :: int
  json_legend :: sparse_legend

record RadarServerInfo =
  info_id :: string
  info_name :: string
  info_streamUrl :: string
  info_controlUrl :: string
  info_spokes :: int
  info_maxSpokeLen :: int
  info_legend :: sparse_legend

definition serverInfo :: "string \<Rightarrow> RadarJson \<Rightarrow> RadarServerInfo" where
  "serverInfo radarId j =
     \<lparr>info_id = (case json_id j of Some i \<Rightarrow> i | None \<Rightarrow> radarId),
      info_name = json_name j, info_streamUrl = json_streamUrl j,
      info_controlUrl = json_controlUrl j, info_spokes = json_spokes j,
      info_maxSpokeLen = json_maxSpokeLen j, info_legend = json_legend j\<rparr>"

text \<open>
  The answer to \<open>fetch(...)\<close> followed by \<open>response.json()\<close>: a failure, with the text
  \<open>`${error}`\<close> prints for what was thrown, or the discovery object, given by its own
  properties in the order \<open>Object.keys\<close> lists them. The status of the response is not
  looked at by the code.
\<close>

datatype discovery =
    Failed string
  | Radars "(string \<times> RadarJson) list"

text \<open>
  \<open>radars[radarId]\<close> is modelled by \<^const>\<open>map_of\<close>, the lookup among the object's own
  properties. In JavaScript the expression also finds the members every object inherits
  from \<open>Object.prototype\<close>; their names are listed here, and the statements below about an
  id that is missing from the object leave these names aside.
\<close>

definition objectPrototypeKeys :: "string list" where
  "objectPrototypeKeys =
     [''constructor'', ''__proto__'', ''hasOwnProperty'', ''isPrototypeOf'',
      ''propertyIsEnumerable'', ''toLocaleString'', ''toString'', ''valueOf'',
      ''__defineGetter__'', ''__defineSetter__'', ''__lookupGetter__'', ''__lookupSetter__'']"

text \<open>The setting \<open>this.app.config.radar\<close>, which may be missing.\<close>

record RadarSettings =
  enabled :: bool
  settings_url :: string
  settings_port :: string

definition baseUrl :: "RadarSettings option \<Rightarrow> string" where
  "baseUrl radarSettings =
     (case radarSettings of
        Some r \<Rightarrow> if enabled r then settings_url r @ '':'' @ settings_port r
                  else ''http://localhost:3001''
      | None \<Rightarrow> ''http://localhost:3001'')"

text \<open>A socket made by \<open>new WebSocket(url)\<close>, with the state of the promise that
  \<open>connectWebSocket\<close> returned for it and whether \<open>close()\<close> has been called on it.\<close>

datatype promise = Pending | Resolved | Settled_rejected

record Socket =
  ws_url :: string
  ws_promise :: promise
  ws_closeCalled :: bool

text \<open>A timer set with \<open>setTimeout\<close> that has not fired: the reconnect timer of
  \<open>onclose\<close>, or the connection timeout of the socket with the given index; both with
  their delay in milliseconds. The code never calls \<open>clearTimeout\<close>.\<close>

datatype timer =
    ReconnectTimer nat
  | TimeoutTimer nat nat


text \<open>
  The state of the service: the values of \<open>connected$\<close> and \<open>connecting$\<close>
  (\<open>connected\<close> is a constant of the library, hence the suffix) and of
  \<open>radarConfig$\<close>, \<open>currentRadar\<close>, the index of the socket \<open>this.webSocket\<close> refers to,
  every socket made so far, the timers not yet fired, and what has been sent out: the
  configs on \<open>radarConfig$\<close>, the messages on \<open>error$\<close>, the URLs fetched.
\<close>

record RadarService =
  appRadar :: "RadarSettings option"
  connected_value :: bool
  connecting_value :: bool
  radarConfig :: "RadarConfig option"
  currentRadar :: "RadarServerInfo option"
  webSocket :: "nat option"
  sockets :: "Socket list"
  timers :: "timer list"
  published :: "RadarConfig list"
  errors :: "string list"
  requests :: "string list"

definition newService :: "RadarSettings option \<Rightarrow> RadarService" where
  "newService radarSettings =
     \<lparr>appRadar = radarSettings, connected_value = False, connecting_value = False,
      radarConfig = None, currentRadar = None, webSocket = None, sockets = [], timers = [], published = [],
      errors = [], requests = []\<rparr>"

text \<open>What \<open>`${error}`\<close> prints.\<close>

definition printError :: "js_error \<Rightarrow> string" where
  "printError e =
     (case e of
        Error message \<Rightarrow> if message = [] then ''Error'' else ''Error: '' @ message
      | Rejected text \<Rightarrow> text
      | PlatformError printed \<Rightarrow> printed
      | TypeError \<Rightarrow> ''TypeError''
      | RangeError \<Rightarrow> ''RangeError'')"

fun joinWith :: "string \<Rightarrow> string list \<Rightarrow> string" where
  "joinWith sep [] = []"
| "joinWith sep [x] = x"
| "joinWith sep (x # y # zs) = x @ sep @ joinWith sep (y # zs)"

text \<open>The \<open>catch\<close> block of \<open>connectToRadar\<close>: the error is reported and thrown again.\<close>

definition catchConnect :: "js_error \<Rightarrow> RadarService \<Rightarrow> js_error option \<times> RadarService" where
  "catchConnect e s =
     (Some e, s\<lparr>connecting_value := False,
                errors := errors s @ [''Failed to connect to radar: '' @ printError e]\<rparr>)"

text \<open>\<open>connectWebSocket\<close> with \<open>currentRadar\<close> set: the socket is made and the connection
  timeout of 10 seconds is set. The stream URL is taken to be one that the constructor
  accepts.\<close>

definition connectWebSocket :: "RadarServerInfo \<Rightarrow> RadarService \<Rightarrow> RadarService" where
  "connectWebSocket cur s =
     s\<lparr>sockets := sockets s @
          [\<lparr>ws_url = info_streamUrl cur, ws_promise = Pending, ws_closeCalled = False\<rparr>],
       webSocket := Some (length (sockets s)),
       timers := timers s @ [TimeoutTimer (length (sockets s)) 10000]\<rparr>"

text \<open>The id that \<open>connectToRadar\<close> goes on with: the first key of the discovery object
  when no id, or the empty string, was given (\<open>if (!radarId)\<close>).\<close>

definition chooseRadar :: "string option \<Rightarrow> (string \<times> RadarJson) list \<Rightarrow> js_error + string" where
  "chooseRadar radarId radars =
     (if radarId = None \<or> radarId = Some []
      then (case map fst radars of
              [] \<Rightarrow> Inl (Error ''No radars available'')
            | first # others \<Rightarrow> Inr first)
      else Inr (case radarId of Some i \<Rightarrow> i | None \<Rightarrow> []))"

definition notFound :: "string \<Rightarrow> (string \<times> RadarJson) list \<Rightarrow> js_error" where
  "notFound radarId radars =
     Error (''Radar '' @ radarId @ '' not found. Available radars: '' @
            joinWith '', '' (map fst radars))"

text \<open>
  \<open>connectToRadar\<close> after the discovery request has been answered. The result is what
  the promise of \<open>connectToRadar\<close> has been rejected with so far, if anything, and the
  state; with a socket made, the promise stays open until the socket reports.
\<close>

definition connectToRadar_fetched ::
  "RadarService \<Rightarrow> string option \<Rightarrow> discovery \<Rightarrow> js_error option \<times> RadarService" where
  "connectToRadar_fetched s radarId response =
     (case response of
        Failed printed \<Rightarrow> catchConnect (PlatformError printed) s
      | Radars radars \<Rightarrow>
          (case chooseRadar radarId radars of
             Inl e \<Rightarrow> catchConnect e s
           | Inr chosen \<Rightarrow>
               (case map_of radars chosen of
                  None \<Rightarrow> catchConnect (notFound chosen radars) s
                | Some j \<Rightarrow>
                    (let cur = serverInfo chosen j;
                         cfg = \<lparr>cfg_spokes = info_spokes cur,
                                cfg_maxSpokeLen = info_maxSpokeLen cur,
                                cfg_legend = info_legend cur, cfg_range = 1852\<rparr>
                     in (None,
                         connectWebSocket cur
                           (s\<lparr>currentRadar := Some cur, radarConfig := Some cfg,
                              published := published s @ [cfg]\<rparr>))))))"

text \<open>\<open>connectToRadar\<close> from the call to the answer of the discovery request: nothing
  happens while connecting or connected.\<close>

definition connectToRadar ::
  "RadarService \<Rightarrow> string option \<Rightarrow> discovery \<Rightarrow> js_error option \<times> RadarService" where
  "connectToRadar s radarId response =
     (if connecting_value s \<or> connected_value s then (None, s)
      else connectToRadar_fetched
             (s\<lparr>connecting_value := True,
                requests := requests s @ [baseUrl (appRadar s) @ ''/v1/api/radars'']\<rparr>)
             radarId response)"

text \<open>The promise of socket \<open>k\<close> is rejected: if it was still open, \<open>connectToRadar\<close>
  was waiting for it and its \<open>catch\<close> block runs.\<close>

definition rejectSocket :: "nat \<Rightarrow> js_error \<Rightarrow> RadarService \<Rightarrow> RadarService" where
  "rejectSocket k e s =
     (case js_index (sockets s) k of
        Some ws \<Rightarrow>
          if ws_promise ws = Pending
          then snd (catchConnect e
                 (s\<lparr>sockets := (sockets s)[k := ws\<lparr>ws_promise := Settled_rejected\<rparr>]\<rparr>))
          else s
      | None \<Rightarrow> s)"

definition resolveSocket :: "nat \<Rightarrow> RadarService \<Rightarrow> RadarService" where
  "resolveSocket k s =
     (case js_index (sockets s) k of
        Some ws \<Rightarrow>
          if ws_promise ws = Pending
          then s\<lparr>sockets := (sockets s)[k := ws\<lparr>ws_promise := Resolved\<rparr>]\<rparr>
          else s
      | None \<Rightarrow> s)"

text \<open>The handlers of socket \<open>k\<close>.\<close>

definition onopen :: "RadarService \<Rightarrow> nat \<Rightarrow> RadarService" where
  "onopen s k = resolveSocket k (s\<lparr>connected_value := True, connecting_value := False\<rparr>)"


definition onerror :: "RadarService \<Rightarrow> nat \<Rightarrow> RadarService" where
  "onerror s k =
     rejectSocket k (PlatformError ''[object Event]'')
       (s\<lparr>connecting_value := False, errors := errors s @ [''WebSocket connection error'']\<rparr>)"

text \<open>The connection timeout of socket \<open>k\<close> fires.\<close>

definition timeoutFired :: "RadarService \<Rightarrow> nat \<Rightarrow> RadarService" where
  "timeoutFired s k =
     (let s1 = s\<lparr>timers := remove1 (TimeoutTimer k 10000) (timers s)\<rparr>
      in if connecting_value s1
         then rejectSocket k (Rejected ''Connection timeout'') (s1\<lparr>connecting_value := False\<rparr>)
         else s1)"


definition updateRange :: "RadarService \<Rightarrow> real \<Rightarrow> RadarService" where
  "updateRange s meters =
     (case radarConfig s of
        Some currentConfig \<Rightarrow>
          s\<lparr>radarConfig := Some (currentConfig\<lparr>cfg_range := meters\<rparr>),
            published := published s @ [currentConfig\<lparr>cfg_range := meters\<rparr>]\<rparr>
      | None \<Rightarrow> s)"



text \<open>A discovery answer with one radar, for the examples.\<close>

definition exampleRadars :: "(string \<times> RadarJson) list" where
  "exampleRadars =
     [(''radar-0'',
       \<lparr>json_id = Some ''radar-0'', json_name = ''HALO'',
        json_streamUrl = ''ws://localhost:3001/v1/api/stream/radar-0'',
        json_controlUrl = ''ws://localhost:3001/v1/api/control/radar-0'',
        json_spokes = 2048, json_maxSpokeLen = 1024,
        json_legend = [1 \<mapsto> ''#ff0000''] \<rparr>)]"

text \<open>The service after a first connect without an id has found the example radar and
  its socket has opened; a clean close of a socket.\<close>

definition exampleConnected :: RadarService where
  "exampleConnected =
     onopen (snd (connectToRadar (newService None) None (Radars exampleRadars))) 0"


section \<open>What a render pass has to draw\<close>

text \<open>
  The drawing of a buffer written down without the loops, to state what \<open>render\<close> puts on
  the canvas: the cells of the samples of one spoke, each coloured by the table entry of
  its intensity and placed at its index times the pixel size; the wedge of one spoke,
  between \<open>save\<close> and \<open>restore\<close>, moved to the centre and rotated by the angle of the
  spoke; and the wedges of all angles from 0 to \<open>spokes - 1\<close> that have samples in the
  buffer, in that order.
\<close>

definition drawnCells :: "rgba list \<Rightarrow> real \<Rightarrow> nat \<Rightarrow> byte list \<Rightarrow> canvas_op list" where
  "drawnCells lgd pixels i samples =
     concat (map (\<lambda>(k, v). case js_index lgd (min (unat v) 255) of
                               Some color \<Rightarrow> cellOps color pixels k
                             | None \<Rightarrow> [])
                 (enumerate i samples))"

definition drawnWedge :: "RadarDisplay \<Rightarrow> RadarConfig \<Rightarrow> int \<Rightarrow> byte list \<Rightarrow> canvas_op list" where
  "drawnWedge d cfg a samples =
     [Save, Translate (centerX d) (centerY d), Rotate (finalAngle (boatHeading d) cfg a)] @
     drawnCells (legend d) ((maxRadius d * RANGE_SCALE) / of_nat (length samples)) 0 samples @
     [Restore]"

definition drawnSweep ::
  "RadarDisplay \<Rightarrow> RadarConfig \<Rightarrow> (int \<rightharpoonup> byte list) \<Rightarrow> int \<Rightarrow> canvas_op list" where
  "drawnSweep d cfg buffer from =
     concat (map (\<lambda>a. case buffer a of None \<Rightarrow> [] | Some samples \<Rightarrow> drawnWedge d cfg a samples)
                 [from..cfg_spokes cfg - 1])"

chapter \<open>Properties\<close>

section \<open>Range labels\<close>

lemma show_nat_digit: "n < 10 \<Longrightarrow> show_nat n = [digit n]"
  by (simp add: show_nat.simps)

lemma show_nat_step: "10 \<le> n \<Longrightarrow> show_nat n = show_nat (n div 10) @ [digit n]"
  by (subst show_nat.simps) simp

text \<open>
  C7. The range-label formatter maps 1852 m to "1 nm", 2778 m to "1.5 nm", 500 m to
  "500 m" and 1500 m to "1.5 km".
\<close>

theorem formatRange_examples:
  "formatRange 1852 = ''1 nm'' \<and> formatRange 2778 = ''1.5 nm'' \<and>
   formatRange 500 = ''500 m'' \<and> formatRange 1500 = ''1.5 km''"
proof -
  have a: "formatRange 1852 = ''1 nm''"
    by (simp add: formatRange_def show_int_def show_nat_digit digit_def)
  have "(2778::real) / 1852 = 3 / 2" by simp
  then have b: "formatRange 2778 = ''1.5 nm''"
    by (simp add: formatRange_def Let_def toFixed1_def show_nat_digit show_nat_step digit_def)
  have c: "formatRange 500 = ''500 m''"
    by (simp add: formatRange_def Math_round_def show_int_def show_nat_digit
        show_nat_step digit_def)
  have d: "formatRange 1500 = ''1.5 km''"
    by (simp add: formatRange_def toFixed1_def show_nat_digit show_nat_step digit_def)
  from a b c d show ?thesis by simp
qed

section \<open>The colour table\<close>

lemma expandLoop_map:
  "i \<le> 256 \<Longrightarrow> expandLoop lg i acc = acc @ map (legendEntry lg) [i..<256]"
proof (induction lg i acc rule: expandLoop.induct)
  case (1 lg i acc)
  show ?case
  proof (cases "i < 256")
    case True
    then have "expandLoop lg i acc = expandLoop lg (i + 1) (acc @ [legendEntry lg i])"
      by (subst expandLoop.simps) simp
    also have "\<dots> = (acc @ [legendEntry lg i]) @ map (legendEntry lg) [i + 1..<256]"
      using "1.IH" True by simp
    also have "\<dots> = acc @ map (legendEntry lg) [i..<256]"
      using True by (simp add: upt_conv_Cons)
    finally show ?thesis .
  next
    case False
    with "1.prems" have "i = 256" by simp
    then show ?thesis by (subst expandLoop.simps) simp
  qed
qed

lemma layer_expandLegend_map: "layer_expandLegend lg = map (legendEntry lg) [0..<256]"
  by (simp add: layer_expandLegend_def expandLoop_map)

lemma length_padRGBA: "4 \<le> length (padRGBA c)"
proof (induction c rule: padRGBA.induct)
  case (1 c)
  then show ?case by (subst padRGBA.simps) simp
qed

lemma length_hexToRGBA: "4 \<le> length (hexToRGBA hex)"
  by (simp add: hexToRGBA_def length_padRGBA)

lemma length_legendEntry: "4 \<le> length (legendEntry lg i)"
  by (simp add: legendEntry_def transparent_def length_hexToRGBA split: option.split)

lemma expandLegend_eq:
  "expandLegend lg = (legendEntry lg 0)[3 := Some 255] # map (legendEntry lg) [1..<256]"
proof -
  have "[0..<256] = 0 # [1..<256]" by (simp add: upt_conv_Cons)
  then have "layer_expandLegend lg = legendEntry lg 0 # map (legendEntry lg) [1..<256]"
    by (simp add: layer_expandLegend_map)
  moreover have "3 < length (legendEntry lg 0)"
    using length_legendEntry [of lg 0] by simp
  ultimately show ?thesis
    by (simp add: expandLegend_def layer_expandLegend_def forceOpaque_def js_assign_def)
qed

lemma length_expandLegend: "length (expandLegend lg) = 256"
  by (simp add: expandLegend_eq)

lemma expandLegend_nth_pos:
  "0 < i \<Longrightarrow> i < 256 \<Longrightarrow> expandLegend lg ! i = legendEntry lg i"
  by (cases i) (simp_all add: expandLegend_eq)

lemma expandLegend_nth_0: "expandLegend lg ! 0 = (legendEntry lg 0)[3 := Some 255]"
  by (simp add: expandLegend_eq)

lemma layer_expandLegend_nth: "i < 256 \<Longrightarrow> layer_expandLegend lg ! i = legendEntry lg i"
  by (simp add: layer_expandLegend_map)

lemma padRGBA_short: "length c \<le> 4 \<Longrightarrow> length (padRGBA c) = 4"
proof (induction c rule: padRGBA.induct)
  case (1 c)
  show ?case
  proof (cases "length c < 4")
    case True
    with "1.IH" show ?thesis by (subst padRGBA.simps) simp
  next
    case False
    with "1.prems" show ?thesis by (subst padRGBA.simps) simp
  qed
qed

lemma length_slices2: "length (slices2 cs) = (length cs + 1) div 2"
  by (induction cs rule: slices2.induct) simp_all

lemma hexToRGBA_four: "length hex \<le> 9 \<Longrightarrow> length (hexToRGBA hex) = 4"
  by (simp add: hexToRGBA_def padRGBA_short length_slices2)

text \<open>The display component's table, for every sparse legend: 256 entries;
  \<open>(0,0,0,0)\<close> computed for every intensity without an entry; alpha 255 at index 0 after
  the table is built, whatever was computed there; the other entries as computed. The
  table before that last step is the map layer's table.\<close>

lemma expandLegend_computed: "expandLegend lg = forceOpaque (layer_expandLegend lg)"
  by (simp add: expandLegend_def layer_expandLegend_def)

lemma expandLegend_display:
  "length (expandLegend lg) = 256 \<and>
   (\<forall>i < 256. lg i = None \<longrightarrow> layer_expandLegend lg ! i = [Some 0, Some 0, Some 0, Some 0]) \<and>
   (\<forall>i. 0 < i \<longrightarrow> i < 256 \<longrightarrow> expandLegend lg ! i = layer_expandLegend lg ! i) \<and>
   expandLegend lg ! 0 = (layer_expandLegend lg ! 0)[3 := Some 255] \<and>
   expandLegend lg ! 0 ! 3 = Some 255 \<and>
   (\<forall>i < 256. (\<forall>color. lg i = Some color \<longrightarrow> length color \<le> 9) \<longrightarrow>
      length (expandLegend lg ! i) = 4)"
proof -
  have three: "3 < length (legendEntry lg 0)"
    using length_legendEntry [of lg 0] by simp
  have four: "\<forall>i < 256. (\<forall>color. lg i = Some color \<longrightarrow> length color \<le> 9) \<longrightarrow>
      length (expandLegend lg ! i) = 4"
  proof (intro allI impI)
    fix i :: nat
    assume i: "i < 256" and c: "\<forall>color. lg i = Some color \<longrightarrow> length color \<le> 9"
    have e: "length (legendEntry lg i) = 4"
      using c by (cases "lg i") (simp_all add: legendEntry_def transparent_def hexToRGBA_four)
    show "length (expandLegend lg ! i) = 4"
      using i e by (cases "i = 0") (simp_all add: expandLegend_nth_0 expandLegend_nth_pos)
  qed
  have absent: "\<forall>i < 256. lg i = None \<longrightarrow>
      layer_expandLegend lg ! i = [Some 0, Some 0, Some 0, Some 0]"
    by (simp add: layer_expandLegend_nth legendEntry_def transparent_def)
  have rest: "\<forall>i. 0 < i \<longrightarrow> i < 256 \<longrightarrow> expandLegend lg ! i = layer_expandLegend lg ! i"
    by (simp add: expandLegend_nth_pos layer_expandLegend_nth)
  have zero: "expandLegend lg ! 0 = (layer_expandLegend lg ! 0)[3 := Some 255]"
    by (simp add: expandLegend_nth_0 layer_expandLegend_nth)
  have alpha: "expandLegend lg ! 0 ! 3 = Some 255"
    using three by (simp add: expandLegend_nth_0)
  from four absent rest zero alpha show ?thesis
    by (simp add: length_expandLegend)
qed

lemma hexToRGBA_clear: "hexToRGBA ''#00000000'' = [Some 0, Some 0, Some 0, Some 0]"
  by (simp add: hexToRGBA_def parseInt16_def hexDigit_def hexValue_def isWhiteSpace_def
      padRGBA.simps)

text \<open>With well-formed colour strings every entry of either table is RGBA.\<close>

lemma hexDigit_bound: "hexDigit c = Some v \<Longrightarrow> v < 16"
  by (auto simp add: hexDigit_def Let_def split: if_splits)

lemma hexDigit_plain:
  assumes "hexDigit c \<noteq> None"
  shows "\<not> isWhiteSpace c" "c \<noteq> CHR ''+''" "c \<noteq> CHR ''-''" "c \<noteq> CHR ''x''" "c \<noteq> CHR ''X''"
proof -
  show "\<not> isWhiteSpace c"
    using assms by (auto simp add: hexDigit_def isWhiteSpace_def Let_def split: if_splits)
  show "c \<noteq> CHR ''+''" using assms by (auto simp add: hexDigit_def)
  show "c \<noteq> CHR ''-''" using assms by (auto simp add: hexDigit_def)
  show "c \<noteq> CHR ''x''" using assms by (auto simp add: hexDigit_def)
  show "c \<noteq> CHR ''X''" using assms by (auto simp add: hexDigit_def)
qed

lemma parseInt16_pair:
  assumes "hexDigit a = Some x" "hexDigit b = Some y"
  shows "parseInt16 [a, b] = Some (int (16 * x + y))"
proof -
  have a: "hexDigit a \<noteq> None" and b: "hexDigit b \<noteq> None" using assms by simp_all
  note pa = hexDigit_plain [OF a] and pb = hexDigit_plain [OF b]
  show ?thesis
    using assms pa pb by (simp add: parseInt16_def hexValue_def)
qed

lemma byteChannel_pair:
  assumes "hexDigit a \<noteq> None" "hexDigit b \<noteq> None"
  shows "byteChannel (parseInt16 [a, b])"
proof -
  from assms obtain x y where xy: "hexDigit a = Some x" "hexDigit b = Some y" by auto
  from hexDigit_bound [OF xy(1)] hexDigit_bound [OF xy(2)] have "16 * x + y \<le> 255" by simp
  then show ?thesis by (simp add: parseInt16_pair [OF xy] byteChannel_def)
qed

lemma slices2_channels:
  "even (length digits) \<Longrightarrow> list_all (\<lambda>x. hexDigit x \<noteq> None) digits \<Longrightarrow>
   list_all byteChannel (map parseInt16 (slices2 digits))"
  by (induction digits rule: slices2.induct) (simp_all add: byteChannel_pair)

lemma padRGBA_channels: "list_all byteChannel c \<Longrightarrow> list_all byteChannel (padRGBA c)"
proof (induction c rule: padRGBA.induct)
  case (1 c)
  show ?case
  proof (cases "length c < 4")
    case True
    have "byteChannel (Some 255)" "byteChannel (Some 0)" by (simp_all add: byteChannel_def)
    then have "list_all byteChannel (c @ [if length c = 3 then Some 255 else Some 0])"
      using "1.prems" by simp
    from "1.IH" [OF True this] True show ?thesis by (subst padRGBA.simps) simp
  next
    case False
    with "1.prems" show ?thesis by (subst padRGBA.simps) simp
  qed
qed

lemma hexToRGBA_isRGBA: "wellFormedColor hex \<Longrightarrow> isRGBA (hexToRGBA hex)"
proof -
  assume w: "wellFormedColor hex"
  then obtain c digits where hex: "hex = c # digits"
    and len: "length digits = 6 \<or> length digits = 8"
    and dig: "list_all (\<lambda>x. hexDigit x \<noteq> None) digits"
    by (cases hex) (auto simp add: wellFormedColor_def)
  from len have ev: "even (length digits)" by auto
  from len have "length hex \<le> 9" by (auto simp add: hex)
  then have "length (hexToRGBA hex) = 4" by (rule hexToRGBA_four)
  moreover have "list_all byteChannel (hexToRGBA hex)"
    using slices2_channels [OF ev dig] by (simp add: hexToRGBA_def hex padRGBA_channels)
  ultimately show ?thesis by (simp add: isRGBA_def)
qed

lemma isRGBA_forced: "isRGBA c \<Longrightarrow> isRGBA (c[3 := Some 255])"
proof -
  assume c: "isRGBA c"
  have "byteChannel (Some 255)" by (simp add: byteChannel_def)
  moreover have "set (c[3 := Some 255]) \<subseteq> insert (Some 255) (set c)"
    by (rule set_update_subset_insert)
  ultimately show ?thesis using c by (auto simp add: isRGBA_def list_all_iff)
qed

lemma expandLegend_isRGBA:
  assumes "\<forall>i color. i < 256 \<longrightarrow> lg i = Some color \<longrightarrow> wellFormedColor color"
  shows "\<forall>i < 256. isRGBA (expandLegend lg ! i) \<and> isRGBA (layer_expandLegend lg ! i)"
proof (intro allI impI)
  fix i :: nat
  assume i: "i < 256"
  have e: "isRGBA (legendEntry lg i)"
  proof (cases "lg i")
    case None
    then show ?thesis by (simp add: legendEntry_def transparent_def isRGBA_def byteChannel_def)
  next
    case (Some color)
    with assms i have "wellFormedColor color" by blast
    with Some show ?thesis by (simp add: legendEntry_def hexToRGBA_isRGBA)
  qed
  show "isRGBA (expandLegend lg ! i) \<and> isRGBA (layer_expandLegend lg ! i)"
    using i e
    by (cases "i = 0")
      (simp_all add: expandLegend_nth_0 expandLegend_nth_pos layer_expandLegend_nth isRGBA_forced)
qed

text \<open>
  C2 on the code. \<open>RadarLayerComponent.expandLegend\<close> builds the same table and stops
  there: for the empty legend, and for a legend whose colour of intensity 0 is
  \<open>#00000000\<close>, entry 0 keeps alpha 0, where the display component's table has alpha
  255.
\<close>

theorem layer_expandLegend_keeps_alpha:
  "layer_expandLegend Map.empty ! 0 = [Some 0, Some 0, Some 0, Some 0] \<and>
   layer_expandLegend Map.empty ! 0 ! 3 = Some 0 \<and>
   expandLegend Map.empty ! 0 ! 3 = Some 255 \<and>
   layer_expandLegend [0 \<mapsto> ''#00000000''] ! 0 ! 3 = Some 0 \<and>
   expandLegend [0 \<mapsto> ''#00000000''] ! 0 ! 3 = Some 255"
  by (simp add: layer_expandLegend_nth expandLegend_nth_0 legendEntry_def transparent_def
      hexToRGBA_clear)

section \<open>The sweep buffer and the render pass\<close>

lemma sampleOps_ok:
  "length lgd = 256 \<Longrightarrow> \<exists>ops. sampleOps lgd pixels i spokeData = Inr ops"
proof (induction spokeData arbitrary: i)
  case Nil
  show ?case by simp
next
  case (Cons v vs)
  from Cons.IH [OF Cons.prems, of "i + 1"] obtain rest
    where "sampleOps lgd pixels (i + 1) vs = Inr rest" by blast
  moreover have "min (unat v) 255 < length lgd" using Cons.prems by simp
  ultimately show ?case by (simp add: js_index_def)
qed

lemma renderSingleSpoke_ok:
  assumes "length (legend d) = 256"
  shows "\<exists>drawn. renderSingleSpoke d cfg a spokeData = Inr drawn"
proof -
  obtain cells where "sampleOps (legend d) (pixelsPerDataPoint d spokeData) 0 spokeData = Inr cells"
    using sampleOps_ok [OF assms] by blast
  then show ?thesis by (simp add: renderSingleSpoke_def)
qed

lemma renderLoop_ok:
  "length (legend d) = 256 \<Longrightarrow> \<exists>ops'. renderLoop d cfg a ops = Inr ops'"
proof (induction d cfg a ops rule: renderLoop.induct)
  case (1 d cfg angle ops)
  show ?case
  proof (cases "angle < cfg_spokes cfg")
    case False
    then show ?thesis by (subst renderLoop.simps) simp
  next
    case True
    show ?thesis
    proof (cases "spokeDataBuffer d angle")
      case None
      with True "1.IH"(1) "1.prems" show ?thesis
        by (subst renderLoop.simps) simp
    next
      case (Some spokeData)
      obtain drawn where dr: "renderSingleSpoke d cfg angle spokeData = Inr drawn"
        using renderSingleSpoke_ok [OF "1.prems"] by blast
      from "1.IH"(2) [OF True Some dr "1.prems"] True Some dr show ?thesis
        by (subst renderLoop.simps) simp
    qed
  qed
qed

lemma render_ok:
  assumes "tableOK d"
  shows "\<exists>ops. render d = Inr (d\<lparr>radarCtx := ops, pendingRender := False\<rparr>)"
proof (cases "config d")
  case None
  then show ?thesis
    by (intro exI [of _ "radarCtx d"]) (simp add: render_def)
next
  case (Some cfg)
  with assms have len: "length (legend d) = 256" by (simp add: tableOK_def)
  then have ne: "legend d \<noteq> []" by auto
  obtain ops where "renderLoop d cfg 0 (radarCtx d @ [ClearRect 0 0 (width d) (height d)]) = Inr ops"
    using renderLoop_ok [OF len] by blast
  with Some ne show ?thesis
    by (intro exI [of _ ops]) (simp add: render_def)
qed

lemma drawSpoke_stores:
  assumes "config d \<noteq> None" "legend d \<noteq> []"
  shows "drawSpoke d s =
     d\<lparr>spokeDataBuffer := store (spokeDataBuffer d) s,
       pendingRender := True,
       animationFrames := (if pendingRender d then animationFrames d else animationFrames d + 1)\<rparr>"
proof -
  from assms obtain cfg where "config d = Some cfg" by auto
  with assms(2) show ?thesis
    by (cases "pendingRender d") (simp_all add: drawSpoke_def Let_def)
qed

lemma foldl_drawSpoke:
  assumes "config d \<noteq> None" "legend d \<noteq> []"
  shows "foldl drawSpoke d (s # spokes) =
     d\<lparr>spokeDataBuffer := foldl store (spokeDataBuffer d) (s # spokes),
       pendingRender := True,
       animationFrames := (if pendingRender d then animationFrames d else animationFrames d + 1)\<rparr>"
  using assms
proof (induction spokes arbitrary: d s)
  case Nil
  show ?case by (simp add: drawSpoke_stores [OF Nil.prems])
next
  case (Cons t spokes)
  let ?d1 = "drawSpoke d s"
  note st = drawSpoke_stores [OF Cons.prems, of s]
  have c: "config ?d1 \<noteq> None" "legend ?d1 \<noteq> []"
    using Cons.prems by (simp_all add: st)
  have p: "pendingRender ?d1" by (simp add: st)
  have "foldl drawSpoke d (s # t # spokes) = foldl drawSpoke ?d1 (t # spokes)" by simp
  also have "\<dots> = ?d1\<lparr>spokeDataBuffer := foldl store (spokeDataBuffer ?d1) (t # spokes),
       pendingRender := True,
       animationFrames := (if pendingRender ?d1 then animationFrames ?d1 else animationFrames ?d1 + 1)\<rparr>"
    by (rule Cons.IH [OF c])
  also have "\<dots> = d\<lparr>spokeDataBuffer := foldl store (spokeDataBuffer d) (s # t # spokes),
       pendingRender := True,
       animationFrames := (if pendingRender d then animationFrames d else animationFrames d + 1)\<rparr>"
    unfolding st by simp
  finally show ?case .
qed

lemma mostRecent_snoc:
  "mostRecent a (spokes @ [s]) = (if spoke_angle s = a then Some (spoke_data s) else mostRecent a spokes)"
  by (simp add: mostRecent_def)

lemma foldl_store:
  "foldl store b spokes a = (case mostRecent a spokes of Some sd \<Rightarrow> Some sd | None \<Rightarrow> b a)"
proof (induction spokes rule: rev_induct)
  case Nil
  show ?case by (simp add: mostRecent_def)
next
  case (snoc s spokes)
  then show ?case by (simp add: mostRecent_snoc store_def)
qed

text \<open>
  C1. Once the guard of \<open>drawSpoke\<close> passes (a config is set and the colour table is not
  empty), after any sequence of spokes the buffer holds, at each angle, the samples of the
  spoke processed last with that angle, and what it held before at an angle no spoke had.
\<close>

theorem drawSpoke_last_write_wins:
  assumes "config d \<noteq> None" "legend d \<noteq> []"
  shows "spokeDataBuffer (foldl drawSpoke d spokes) a =
     (case mostRecent a spokes of Some sd \<Rightarrow> Some sd | None \<Rightarrow> spokeDataBuffer d a)"
proof -
  have "spokeDataBuffer (foldl drawSpoke d spokes) = foldl store (spokeDataBuffer d) spokes"
  proof (cases spokes)
    case Nil
    then show ?thesis by simp
  next
    case (Cons s rest)
    show ?thesis unfolding Cons foldl_drawSpoke [OF assms] by simp
  qed
  then show ?thesis by (simp add: foldl_store)
qed

section \<open>Reachable states and the refresh\<close>

lemma updateCenterAndRadius_frame:
  "config (updateCenterAndRadius d) = config d"
  "legend (updateCenterAndRadius d) = legend d"
  "spokeDataBuffer (updateCenterAndRadius d) = spokeDataBuffer d"
  "pendingRender (updateCenterAndRadius d) = pendingRender d"
  "animationFrames (updateCenterAndRadius d) = animationFrames d"
  "radarCtx (updateCenterAndRadius d) = radarCtx d"
  "width (updateCenterAndRadius d) = width d"
  "height (updateCenterAndRadius d) = height d"
  "boatHeading (updateCenterAndRadius d) = boatHeading d"
  by (simp_all add: updateCenterAndRadius_def centred_def split: option.split prod.split)

lemma ngOnInit_fields:
  "config (ngOnInit w h heading m) = None"
  "legend (ngOnInit w h heading m) = []"
  "pendingRender (ngOnInit w h heading m) = False"
  "animationFrames (ngOnInit w h heading m) = 0"
  "spokeDataBuffer (ngOnInit w h heading m) = Map.empty"
  "radarCtx (ngOnInit w h heading m) = []"
  by (simp_all add: ngOnInit_def updateCenterAndRadius_frame)

lemma setRadarConfig_fields:
  "config (snd (setRadarConfig d cfg)) = Some cfg"
  "legend (snd (setRadarConfig d cfg)) = expandLegend (cfg_legend cfg)"
  "pendingRender (snd (setRadarConfig d cfg)) = pendingRender d"
  "animationFrames (snd (setRadarConfig d cfg)) = animationFrames d"
  "radarCtx (snd (setRadarConfig d cfg)) = radarCtx d"
  by (simp_all add: setRadarConfig_def Let_def updateCenterAndRadius_frame)

lemma drawSpoke_frame:
  "config (drawSpoke d s) = config d"
  "legend (drawSpoke d s) = legend d"
  by (simp_all add: drawSpoke_def Let_def)

lemma drawSpoke_scheduleOK: "scheduleOK d \<Longrightarrow> scheduleOK (drawSpoke d s)"
  by (simp add: drawSpoke_def Let_def scheduleOK_def)

lemma animationFrame_ok:
  assumes "tableOK d" "scheduleOK d"
  shows "\<exists>ops. animationFrame d = Inr (d\<lparr>radarCtx := ops, pendingRender := False, animationFrames := 0\<rparr>)"
proof (cases "pendingRender d")
  case False
  with assms(2) have "animationFrames d = 0" by (simp add: scheduleOK_def)
  with False show ?thesis
    by (intro exI [of _ "radarCtx d"]) (simp add: animationFrame_def)
next
  case True
  with assms(2) have one: "animationFrames d = Suc 0" by (simp add: scheduleOK_def)
  have "tableOK (d\<lparr>animationFrames := 0\<rparr>)" using assms(1) by (simp add: tableOK_def)
  from render_ok [OF this] obtain ops
    where "render (d\<lparr>animationFrames := 0\<rparr>) =
             Inr (d\<lparr>animationFrames := 0, radarCtx := ops, pendingRender := False\<rparr>)"
    by auto
  then show ?thesis
    by (intro exI [of _ ops]) (simp add: animationFrame_def one)
qed

lemma reachable_ok: "reachable d \<Longrightarrow> tableOK d \<and> scheduleOK d"
proof (induction rule: reachable.induct)
  case (init w h heading mode)
  show ?case by (simp add: tableOK_def scheduleOK_def ngOnInit_fields)
next
  case (configured d cfg)
  then show ?case
    by (simp add: tableOK_def scheduleOK_def setRadarConfig_fields length_expandLegend)
next
  case (spoke d s)
  then show ?case by (simp add: drawSpoke_scheduleOK tableOK_def drawSpoke_frame)
next
  case (mode d m)
  then show ?case
    by (simp add: tableOK_def scheduleOK_def updateDisplayMode_def updateCenterAndRadius_frame)
next
  case (inputs d w h heading m)
  then show ?case by (simp add: tableOK_def scheduleOK_def)
next
  case (frame d d')
  then obtain ops where "animationFrame d = Inr (d\<lparr>radarCtx := ops, pendingRender := False,
      animationFrames := 0\<rparr>)"
    using animationFrame_ok by blast
  with frame.hyps(2) have "d' = d\<lparr>radarCtx := ops, pendingRender := False, animationFrames := 0\<rparr>"
    by simp
  with frame.IH show ?case by (simp add: tableOK_def scheduleOK_def)
next
  case (cleared d)
  then show ?case by (simp add: tableOK_def scheduleOK_def clearDisplay_def)
qed

lemma renderSingleSpoke_cong:
  "renderSingleSpoke (d\<lparr>pendingRender := p, animationFrames := n\<rparr>) cfg a sd =
   renderSingleSpoke d cfg a sd"
  by (simp add: renderSingleSpoke_def pixelsPerDataPoint_def split: sum.split)

lemma renderLoop_cong:
  "renderLoop (d\<lparr>pendingRender := p, animationFrames := n\<rparr>) cfg a ops = renderLoop d cfg a ops"
proof (induction d cfg a ops rule: renderLoop.induct)
  case (1 d cfg angle ops)
  show ?case
  proof (cases "angle < cfg_spokes cfg")
    case False
    then show ?thesis by (simp add: renderLoop.simps [of _ cfg angle])
  next
    case True
    show ?thesis
    proof (cases "spokeDataBuffer d angle")
      case None
      with True "1.IH"(1) show ?thesis
        by (simp add: renderLoop.simps [of _ cfg angle])
    next
      case (Some sd)
      show ?thesis
      proof (cases "renderSingleSpoke d cfg angle sd")
        case (Inl e)
        with True Some show ?thesis
          by (simp add: renderLoop.simps [of _ cfg angle] renderSingleSpoke_cong)
      next
        case (Inr drawn)
        with True Some "1.IH"(2) show ?thesis
          by (simp add: renderLoop.simps [of _ cfg angle] renderSingleSpoke_cong)
      qed
    qed
  qed
qed

lemma sampleOps_drawnCells:
  "length lgd = 256 \<Longrightarrow> sampleOps lgd pixels i samples = Inr (drawnCells lgd pixels i samples)"
proof (induction samples arbitrary: i)
  case Nil
  show ?case by (simp add: drawnCells_def)
next
  case (Cons v vs)
  have "min (unat v) 255 < length lgd" using Cons.prems by simp
  then obtain color where c: "js_index lgd (min (unat v) 255) = Some color"
    by (simp add: js_index_def)
  have "drawnCells lgd pixels i (v # vs) = cellOps color pixels i @ drawnCells lgd pixels (Suc i) vs"
    by (simp add: drawnCells_def c)
  with Cons.IH [OF Cons.prems, of "Suc i"] c show ?case by simp
qed

lemma renderSingleSpoke_drawnWedge:
  "length (legend d) = 256 \<Longrightarrow> renderSingleSpoke d cfg a samples = Inr (drawnWedge d cfg a samples)"
  by (simp add: renderSingleSpoke_def Let_def sampleOps_drawnCells drawnWedge_def
      pixelsPerDataPoint_def)

lemma drawnSweep_step:
  "a < cfg_spokes cfg \<Longrightarrow>
   drawnSweep d cfg buffer a =
     (case buffer a of None \<Rightarrow> [] | Some samples \<Rightarrow> drawnWedge d cfg a samples) @
     drawnSweep d cfg buffer (a + 1)"
  by (simp add: drawnSweep_def upto_rec1 [of a "cfg_spokes cfg - 1"])

lemma drawnSweep_done: "\<not> a < cfg_spokes cfg \<Longrightarrow> drawnSweep d cfg buffer a = []"
  by (simp add: drawnSweep_def)

lemma renderLoop_drawnSweep:
  "length (legend d) = 256 \<Longrightarrow>
   renderLoop d cfg a ops = Inr (ops @ drawnSweep d cfg (spokeDataBuffer d) a)"
proof (induction d cfg a ops rule: renderLoop.induct)
  case (1 d cfg angle ops)
  show ?case
  proof (cases "angle < cfg_spokes cfg")
    case False
    then show ?thesis by (subst renderLoop.simps) (simp add: drawnSweep_done)
  next
    case True
    show ?thesis
    proof (cases "spokeDataBuffer d angle")
      case None
      with True "1.IH"(1) "1.prems" show ?thesis
        by (subst renderLoop.simps) (simp add: drawnSweep_step)
    next
      case (Some samples)
      note dr = renderSingleSpoke_drawnWedge [OF "1.prems", of cfg angle samples]
      from "1.IH"(2) [OF True Some dr "1.prems"] True Some dr show ?thesis
        by (subst renderLoop.simps) (simp add: drawnSweep_step)
    qed
  qed
qed

lemma drawnWedge_cong:
  "drawnWedge (d\<lparr>spokeDataBuffer := b, pendingRender := p, animationFrames := n\<rparr>) cfg a samples =
   drawnWedge d cfg a samples"
  by (simp add: drawnWedge_def)

lemma drawnSweep_cong:
  "drawnSweep (d\<lparr>spokeDataBuffer := b, pendingRender := p, animationFrames := n\<rparr>) cfg buffer a =
   drawnSweep d cfg buffer a"
  by (simp add: drawnSweep_def drawnWedge_cong cong: option.case_cong)

lemma foldl_store_fun:
  "foldl store b spokes =
     (\<lambda>a. case mostRecent a spokes of Some samples \<Rightarrow> Some samples | None \<Rightarrow> b a)"
  by (rule ext) (simp add: foldl_store)

section \<open>The example component\<close>

lemma exampleDisplay_fields:
  "config exampleDisplay = Some exampleConfig"
  "legend exampleDisplay = expandLegend [1 \<mapsto> ''#ff0000'']"
  "centerX exampleDisplay = Some 300"
  "centerY exampleDisplay = Some 300"
  "maxRadius exampleDisplay = 270"
  "boatHeading exampleDisplay = 0"
  "radarCtx exampleDisplay = []"
  "spokeDataBuffer exampleDisplay = Map.empty"
  "pendingRender exampleDisplay = False"
  "animationFrames exampleDisplay = 0"
  by (simp_all add: exampleDisplay_def setRadarConfig_def ngOnInit_def updateCenterAndRadius_def
      centred_def overlayMode_def exampleConfig_def RANGE_SCALE_def Let_def)

lemma exampleDisplay_reachable: "reachable exampleDisplay"
  unfolding exampleDisplay_def by (rule reachable.configured [OF reachable.init])

lemma exampleDisplay_guard: "config exampleDisplay \<noteq> None" "legend exampleDisplay \<noteq> []"
proof -
  show "config exampleDisplay \<noteq> None" by (simp add: exampleDisplay_fields)
  have "length (legend exampleDisplay) = 256"
    by (simp add: exampleDisplay_fields length_expandLegend)
  then show "legend exampleDisplay \<noteq> []" by auto
qed

lemma example_red:
  "legend exampleDisplay ! Suc 0 = [Some 255, Some 0, Some 0, Some 255]"
  "Suc 0 < length (legend exampleDisplay)"
proof -
  have "legendEntry [Suc 0 \<mapsto> ''#ff0000''] (Suc 0) = [Some 255, Some 0, Some 0, Some 255]"
    by (simp add: legendEntry_def hexToRGBA_def parseInt16_def hexDigit_def
        hexValue_def isWhiteSpace_def padRGBA.simps)
  then show "legend exampleDisplay ! Suc 0 = [Some 255, Some 0, Some 0, Some 255]"
    by (simp add: exampleDisplay_fields expandLegend_nth_pos)
  show "Suc 0 < length (legend exampleDisplay)"
    by (simp add: exampleDisplay_fields length_expandLegend)
qed

lemma example_cells:
  "sampleOps (legend exampleDisplay) p 0 [1, 1] =
     Inr [FillStyle (Some 255) (Some 0) (Some 0) 1, FillRect 0 (- (1 / 2)) p 1,
          FillStyle (Some 255) (Some 0) (Some 0) 1, FillRect p (- (1 / 2)) p 1]"
  by (simp add: example_red cellOps_def visible_def channel_def js_index_def)

lemma exampleConfig_range: "cfg_range exampleConfig = 1852"
  by (simp add: exampleConfig_def)

lemma example_angle: "finalAngle 0 exampleConfig 1 = Some 0"
  by (simp add: finalAngle_def angleRad_def adjustedAngle_def js_rem_def trunc_def headingRad_def
      exampleConfig_def)

lemma exampleConfig_spokes: "cfg_spokes exampleConfig = 4"
  by (simp add: exampleConfig_def)

lemma example_sweep:
  "drawnSweep exampleDisplay exampleConfig
     (\<lambda>a. case mostRecent a [exampleSpoke 1 1852 [0, 0], exampleSpoke 1 1852 [1, 1],
                                exampleSpoke 2 1852 [1]] of
             Some samples \<Rightarrow> Some samples
           | None \<Rightarrow> spokeDataBuffer exampleDisplay a) 0 =
   [Save, Translate (Some 300) (Some 300), Rotate (Some 0),
    FillStyle (Some 255) (Some 0) (Some 0) 1, FillRect 0 (- (1 / 2)) (243 / 2) 1,
    FillStyle (Some 255) (Some 0) (Some 0) 1, FillRect (243 / 2) (- (1 / 2)) (243 / 2) 1,
    Restore,
    Save, Translate (Some 300) (Some 300), Rotate (Some (pi / 2)),
    FillStyle (Some 255) (Some 0) (Some 0) 1, FillRect 0 (- (1 / 2)) 243 1,
    Restore]"
proof -
  have u: "[0..cfg_spokes exampleConfig - 1] = [0, 1, 2, 3]"
    by (simp add: exampleConfig_spokes upto_rec1)
  have a2: "finalAngle 0 exampleConfig 2 = Some (pi / 2)"
    by (simp add: finalAngle_def angleRad_def adjustedAngle_def js_rem_def trunc_def headingRad_def
        exampleConfig_spokes)
  show ?thesis
    unfolding drawnSweep_def u
    by (simp add: mostRecent_def exampleSpoke_def exampleDisplay_fields(3-8) drawnWedge_def
        drawnCells_def example_angle a2 js_index_def example_red cellOps_def visible_def
        channel_def RANGE_SCALE_def)
qed

section \<open>Spokes, the buffer and the refresh\<close>

text \<open>The buffer of the example component after two spokes for angle 1 and one for angle
  2: angle 1 holds the samples of the second spoke, angle 3 holds nothing.\<close>

theorem drawSpoke_last_write_wins_witness:
  "config exampleDisplay \<noteq> None \<and> legend exampleDisplay \<noteq> [] \<and>
   spokeDataBuffer
     (foldl drawSpoke exampleDisplay
        [exampleSpoke 1 1852 [1, 1], exampleSpoke 1 1852 [0, 1], exampleSpoke 2 1852 [1]]) 1 =
     Some [0, 1] \<and>
   spokeDataBuffer
     (foldl drawSpoke exampleDisplay
        [exampleSpoke 1 1852 [1, 1], exampleSpoke 1 1852 [0, 1], exampleSpoke 2 1852 [1]]) 3 =
     None"
  using drawSpoke_last_write_wins [OF exampleDisplay_guard,
      of "[exampleSpoke 1 1852 [1, 1], exampleSpoke 1 1852 [0, 1], exampleSpoke 2 1852 [1]]" 1]
    drawSpoke_last_write_wins [OF exampleDisplay_guard,
      of "[exampleSpoke 1 1852 [1, 1], exampleSpoke 1 1852 [0, 1], exampleSpoke 2 1852 [1]]" 3]
    exampleDisplay_guard
  by (simp add: mostRecent_def exampleSpoke_def exampleDisplay_fields)

text \<open>
  C3. In a reachable state with a config, after one or more spokes exactly one render
  callback is registered, and the refresh that follows is one \<open>render\<close>. It clears the
  canvas and then draws, for every angle from 0 to \<open>spokes - 1\<close> in turn, the wedge of the
  samples of the last of these spokes with that angle, or of the samples the buffer held
  before where none of them has that angle; and it leaves no render pending. A spoke that
  arrives while a render is pending registers no further callback.
\<close>

theorem coalesced_render:
  assumes "reachable d" and "config d = Some cfg" and "spokes \<noteq> []"
  shows "animationFrames (foldl drawSpoke d spokes) = 1 \<and>
     animationFrame (foldl drawSpoke d spokes) =
       render ((foldl drawSpoke d spokes)\<lparr>animationFrames := 0\<rparr>) \<and>
     animationFrame (foldl drawSpoke d spokes) =
       Inr (d\<lparr>spokeDataBuffer := foldl store (spokeDataBuffer d) spokes,
              radarCtx := radarCtx d @ [ClearRect 0 0 (width d) (height d)] @
                drawnSweep d cfg
                  (\<lambda>a. case mostRecent a spokes of
                          Some samples \<Rightarrow> Some samples
                        | None \<Rightarrow> spokeDataBuffer d a) 0,
              pendingRender := False, animationFrames := 0\<rparr>) \<and>
     (\<forall>d0 s. pendingRender d0 \<longrightarrow> animationFrames (drawSpoke d0 s) = animationFrames d0)"
proof -
  from reachable_ok [OF assms(1)] have ok: "tableOK d" "scheduleOK d" by simp_all
  from ok(1) assms(2) have len: "length (legend d) = 256" by (simp add: tableOK_def)
  then have ne: "legend d \<noteq> []" by auto
  have cfg: "config d \<noteq> None" using assms(2) by simp
  obtain s rest where sp: "spokes = s # rest" using assms(3) by (cases spokes) auto
  define b where "b = foldl store (spokeDataBuffer d) spokes"
  define d' where "d' = foldl drawSpoke d spokes"
  have d': "d' = d\<lparr>spokeDataBuffer := b, pendingRender := True, animationFrames := 1\<rparr>"
    using ok(2) unfolding d'_def b_def sp foldl_drawSpoke [OF cfg ne]
    by (simp add: scheduleOK_def)
  have one: "animationFrames d' = 1" by (simp add: d')
  have run: "animationFrame d' = render (d'\<lparr>animationFrames := 0\<rparr>)"
    by (cases "render (d'\<lparr>animationFrames := 0\<rparr>)") (simp_all add: animationFrame_def one)
  let ?d0 = "d\<lparr>spokeDataBuffer := b, pendingRender := True, animationFrames := 0\<rparr>"
  have eq: "d'\<lparr>animationFrames := 0\<rparr> = ?d0" by (simp add: d')
  have "length (legend ?d0) = 256" using len by simp
  from renderLoop_drawnSweep [OF this, of cfg 0 "radarCtx d @ [ClearRect 0 0 (width d) (height d)]"]
  have loop: "renderLoop ?d0 cfg 0 (radarCtx d @ [ClearRect 0 0 (width d) (height d)]) =
      Inr (radarCtx d @ [ClearRect 0 0 (width d) (height d)] @ drawnSweep d cfg b 0)"
    by (simp add: drawnSweep_cong)
  have "render ?d0 =
      Inr (d\<lparr>spokeDataBuffer := b,
             radarCtx := radarCtx d @ [ClearRect 0 0 (width d) (height d)] @ drawnSweep d cfg b 0,
             pendingRender := False, animationFrames := 0\<rparr>)"
    using loop assms(2) ne by (simp add: render_def)
  with run eq have "animationFrame d' =
      Inr (d\<lparr>spokeDataBuffer := b,
             radarCtx := radarCtx d @ [ClearRect 0 0 (width d) (height d)] @ drawnSweep d cfg b 0,
             pendingRender := False, animationFrames := 0\<rparr>)"
    by simp
  then have shown: "animationFrame (foldl drawSpoke d spokes) =
       Inr (d\<lparr>spokeDataBuffer := foldl store (spokeDataBuffer d) spokes,
              radarCtx := radarCtx d @ [ClearRect 0 0 (width d) (height d)] @
                drawnSweep d cfg
                  (\<lambda>a. case mostRecent a spokes of
                          Some samples \<Rightarrow> Some samples
                        | None \<Rightarrow> spokeDataBuffer d a) 0,
              pendingRender := False, animationFrames := 0\<rparr>)"
    unfolding d'_def b_def by (simp only: foldl_store_fun [symmetric])
  have "\<forall>d0 s. pendingRender d0 \<longrightarrow> animationFrames (drawSpoke d0 s) = animationFrames d0"
    by (simp add: drawSpoke_def Let_def)
  with shown one run show ?thesis unfolding d'_def by blast
qed


text \<open>Three spokes given to the example component before a refresh, two of them for
  angle 1: the canvas is cleared, then the wedge of the second spoke for angle 1 and the
  wedge of the spoke for angle 2 are drawn.\<close>

theorem coalesced_render_witness:
  "reachable exampleDisplay \<and> config exampleDisplay = Some exampleConfig \<and>
   animationFrames
     (foldl drawSpoke exampleDisplay
        [exampleSpoke 1 1852 [0, 0], exampleSpoke 1 1852 [1, 1], exampleSpoke 2 1852 [1]]) = 1 \<and>
   map_sum id radarCtx
     (animationFrame
        (foldl drawSpoke exampleDisplay
           [exampleSpoke 1 1852 [0, 0], exampleSpoke 1 1852 [1, 1], exampleSpoke 2 1852 [1]])) =
   Inr [ClearRect 0 0 600 600,
        Save, Translate (Some 300) (Some 300), Rotate (Some 0),
        FillStyle (Some 255) (Some 0) (Some 0) 1, FillRect 0 (- (1 / 2)) (243 / 2) 1,
        FillStyle (Some 255) (Some 0) (Some 0) 1, FillRect (243 / 2) (- (1 / 2)) (243 / 2) 1,
        Restore,
        Save, Translate (Some 300) (Some 300), Rotate (Some (pi / 2)),
        FillStyle (Some 255) (Some 0) (Some 0) 1, FillRect 0 (- (1 / 2)) 243 1,
        Restore]"
proof -
  have ne: "[exampleSpoke 1 1852 [0, 0], exampleSpoke 1 1852 [1, 1], exampleSpoke 2 1852 [1]] \<noteq> []"
    by simp
  have wh: "width exampleDisplay = 600" "height exampleDisplay = 600"
    by (simp_all add: exampleDisplay_def setRadarConfig_def Let_def updateCenterAndRadius_frame
        ngOnInit_def)
  note t = coalesced_render [OF exampleDisplay_reachable exampleDisplay_fields(1) ne]
  from t have one: "animationFrames
     (foldl drawSpoke exampleDisplay
        [exampleSpoke 1 1852 [0, 0], exampleSpoke 1 1852 [1, 1], exampleSpoke 2 1852 [1]]) = 1"
    by blast
  from t have fr: "animationFrame (foldl drawSpoke exampleDisplay
        [exampleSpoke 1 1852 [0, 0], exampleSpoke 1 1852 [1, 1], exampleSpoke 2 1852 [1]]) =
       Inr (exampleDisplay\<lparr>spokeDataBuffer := foldl store (spokeDataBuffer exampleDisplay)
                [exampleSpoke 1 1852 [0, 0], exampleSpoke 1 1852 [1, 1], exampleSpoke 2 1852 [1]],
              radarCtx := radarCtx exampleDisplay @
                [ClearRect 0 0 (width exampleDisplay) (height exampleDisplay)] @
                drawnSweep exampleDisplay exampleConfig
                  (\<lambda>a. case mostRecent a [exampleSpoke 1 1852 [0, 0], exampleSpoke 1 1852 [1, 1],
                                             exampleSpoke 2 1852 [1]] of
                          Some samples \<Rightarrow> Some samples
                        | None \<Rightarrow> spokeDataBuffer exampleDisplay a) 0,
              pendingRender := False, animationFrames := 0\<rparr>)"
    by blast
  show ?thesis
    unfolding fr example_sweep
    using one exampleDisplay_reachable exampleDisplay_fields(1)
    by (simp add: wh exampleDisplay_fields(7))
qed

text \<open>
  C10. Without a config, or with an empty colour table, \<open>drawSpoke\<close> returns at once: the
  component is as it was, nothing is written to the buffer and no render is requested.
\<close>

theorem drawSpoke_unconfigured:
  assumes "config d = None \<or> legend d = []"
  shows "drawSpoke d spoke = d \<and>
     spokeDataBuffer (drawSpoke d spoke) = spokeDataBuffer d \<and>
     pendingRender (drawSpoke d spoke) = pendingRender d \<and>
     animationFrames (drawSpoke d spoke) = animationFrames d"
  using assms by (auto simp add: drawSpoke_def)

text \<open>A spoke given to the component right after \<open>ngOnInit\<close>.\<close>

theorem drawSpoke_unconfigured_witness:
  "config (ngOnInit 600 600 0 overlayMode) = None \<and>
   drawSpoke (ngOnInit 600 600 0 overlayMode) (exampleSpoke 1 1852 [1, 1]) =
     ngOnInit 600 600 0 overlayMode"
  using drawSpoke_unconfigured [of "ngOnInit 600 600 0 overlayMode" "exampleSpoke 1 1852 [1, 1]"]
  by (simp add: ngOnInit_fields)

text \<open>The buffered \<open>drawSpoke\<close> never reads the range of the spoke.\<close>

lemma drawSpoke_range_unused: "drawSpoke d (spoke\<lparr>spoke_range := r\<rparr>) = drawSpoke d spoke"
  by (simp add: drawSpoke_def store_def)

text \<open>
  C4 on the code. The buffered \<open>drawSpoke\<close> keeps the samples of a spoke and drops its
  range, and \<open>renderSingleSpoke\<close> draws with \<open>pixelsPerDataPoint\<close> as it is: a spoke
  of twice the config's range is drawn with cells of 121.5 pixels, the width for a spoke
  of the config's own range. The earlier \<open>drawSpoke\<close> multiplies by
  \<open>spoke.range / config.range\<close> and draws the same spoke with cells of 243 pixels.
\<close>

theorem renderSingleSpoke_ignores_spoke_range:
  "spoke_range (exampleSpoke 1 3704 [1, 1]) = 2 * cfg_range exampleConfig \<and>
   spokeDataBuffer (drawSpoke exampleDisplay (exampleSpoke 1 3704 [1, 1])) 1 = Some [1, 1] \<and>
   renderSingleSpoke exampleDisplay exampleConfig 1 [1, 1] =
     Inr [Save, Translate (Some 300) (Some 300), Rotate (Some 0),
          FillStyle (Some 255) (Some 0) (Some 0) 1, FillRect 0 (- (1 / 2)) (243 / 2) 1,
          FillStyle (Some 255) (Some 0) (Some 0) 1, FillRect (243 / 2) (- (1 / 2)) (243 / 2) 1,
          Restore] \<and>
   map_sum id radarCtx (drawSpoke_direct exampleDisplay (exampleSpoke 1 3704 [1, 1])) =
     Inr [Save, Translate (Some 300) (Some 300), Rotate (Some 0),
          FillStyle (Some 255) (Some 0) (Some 0) 1, FillRect 0 (- (1 / 2)) 243 1,
          FillStyle (Some 255) (Some 0) (Some 0) 1, FillRect 243 (- (1 / 2)) 243 1,
          Restore]"
proof -
  have a: "spoke_range (exampleSpoke 1 3704 [1, 1]) = 2 * cfg_range exampleConfig"
    by (simp add: exampleSpoke_def exampleConfig_def)
  have b: "spokeDataBuffer (drawSpoke exampleDisplay (exampleSpoke 1 3704 [1, 1])) 1 = Some [1, 1]"
    by (simp add: drawSpoke_stores [OF exampleDisplay_guard] store_def exampleSpoke_def)
  have c: "renderSingleSpoke exampleDisplay exampleConfig 1 [1, 1] =
     Inr [Save, Translate (Some 300) (Some 300), Rotate (Some 0),
          FillStyle (Some 255) (Some 0) (Some 0) 1, FillRect 0 (- (1 / 2)) (243 / 2) 1,
          FillStyle (Some 255) (Some 0) (Some 0) 1, FillRect (243 / 2) (- (1 / 2)) (243 / 2) 1,
          Restore]"
    by (simp add: renderSingleSpoke_def Let_def example_cells example_angle pixelsPerDataPoint_def
        exampleDisplay_fields(3-6) RANGE_SCALE_def del: sampleOps.simps)
  have ne: "legend exampleDisplay \<noteq> []" by (rule exampleDisplay_guard)
  have d: "map_sum id radarCtx (drawSpoke_direct exampleDisplay (exampleSpoke 1 3704 [1, 1])) =
     Inr [Save, Translate (Some 300) (Some 300), Rotate (Some 0),
          FillStyle (Some 255) (Some 0) (Some 0) 1, FillRect 0 (- (1 / 2)) 243 1,
          FillStyle (Some 255) (Some 0) (Some 0) 1, FillRect 243 (- (1 / 2)) 243 1,
          Restore]"
    using ne
    by (simp add: drawSpoke_direct_def Let_def exampleDisplay_fields(1) exampleDisplay_fields(3-7)
        exampleSpoke_def example_cells example_angle pixelsPerDataPoint_def rangeScale_def
        RANGE_SCALE_def exampleConfig_range del: sampleOps.simps)
  from a b c d show ?thesis by simp
qed

section \<open>The angle of a wedge\<close>

lemma js_rem_nonneg:
  assumes "0 \<le> x" "0 < y"
  shows "js_rem x y = Some (real_mod x y)"
proof -
  have "0 \<le> x / y" using assms by simp
  then show ?thesis using assms by (simp add: js_rem_def real_mod_def trunc_def)
qed

lemma finalAngle_eq:
  assumes "0 \<le> a" "a < cfg_spokes cfg"
  shows "finalAngle heading cfg a = Some (nominalTheta (cfg_spokes cfg) a - heading * pi / 180)"
proof -
  have n: "0 < (of_int (cfg_spokes cfg) :: real)" using assms by simp
  have "0 \<le> (of_int a :: real) + of_int (cfg_spokes cfg) * 3 / 4"
    using assms by simp
  from js_rem_nonneg [OF this n] show ?thesis
    by (simp add: finalAngle_def angleRad_def adjustedAngle_def nominalTheta_def headingRad_def)
qed

lemma renderSingleSpoke_rotate:
  assumes "renderSingleSpoke d cfg a sd = Inr drawn"
  shows "drawn ! 2 = Rotate (finalAngle (boatHeading d) cfg a)"
  using assms by (auto simp add: renderSingleSpoke_def Let_def split: sum.splits)

text \<open>
  C6. For a spoke angle \<open>a\<close> with \<open>0 \<le> a < spokes\<close> and any heading, the angle that
  \<open>renderSingleSpoke\<close> rotates the canvas by is \<open>theta - heading \<sqdot> \<pi> / 180\<close> with
  \<open>theta = 2\<pi> \<sqdot> ((a + spokes \<sqdot> 3/4) mod spokes) / spokes\<close>; with heading 0 it is
  \<open>theta\<close>, and with heading 90 a wedge whose \<open>theta\<close> is 0 is drawn at \<open>- \<pi> / 2\<close>.
\<close>

theorem wedge_angle:
  assumes "0 \<le> a" "a < cfg_spokes cfg"
  shows "finalAngle heading cfg a =
       Some (nominalTheta (cfg_spokes cfg) a - heading * pi / 180) \<and>
     (\<forall>d sd drawn. renderSingleSpoke d cfg a sd = Inr drawn \<longrightarrow>
        drawn ! 2 = Rotate (Some (nominalTheta (cfg_spokes cfg) a - boatHeading d * pi / 180))) \<and>
     finalAngle 0 cfg a = Some (nominalTheta (cfg_spokes cfg) a) \<and>
     (nominalTheta (cfg_spokes cfg) a = 0 \<longrightarrow> finalAngle 90 cfg a = Some (- pi / 2))"
proof -
  note eq = finalAngle_eq [OF assms]
  have "\<forall>d sd drawn. renderSingleSpoke d cfg a sd = Inr drawn \<longrightarrow>
        drawn ! 2 = Rotate (Some (nominalTheta (cfg_spokes cfg) a - boatHeading d * pi / 180))"
    using renderSingleSpoke_rotate eq by simp
  moreover have "finalAngle 0 cfg a = Some (nominalTheta (cfg_spokes cfg) a)"
    by (simp add: eq)
  moreover have "nominalTheta (cfg_spokes cfg) a = 0 \<longrightarrow> finalAngle 90 cfg a = Some (- pi / 2)"
    by (simp add: eq)
  ultimately show ?thesis using eq by blast
qed

text \<open>Four spokes: angle 1 has \<open>theta = 0\<close>, angle 0 has \<open>theta = 3\<pi> / 2\<close>.\<close>

theorem wedge_angle_witness:
  "(0::int) \<le> 1 \<and> 1 < cfg_spokes exampleConfig \<and> nominalTheta (cfg_spokes exampleConfig) 1 = 0 \<and>
   finalAngle 0 exampleConfig 1 = Some 0 \<and>
   finalAngle 90 exampleConfig 1 = Some (- pi / 2) \<and>
   finalAngle 45 exampleConfig 0 = Some (3 * pi / 2 - 45 * pi / 180)"
proof -
  have h: "(0::int) \<le> 1" "1 < cfg_spokes exampleConfig" "(0::int) \<le> 0" "0 < cfg_spokes exampleConfig"
    by (simp_all add: exampleConfig_spokes)
  have t: "nominalTheta (cfg_spokes exampleConfig) 1 = 0"
    by (simp add: nominalTheta_def real_mod_def exampleConfig_spokes)
  have t0: "nominalTheta (cfg_spokes exampleConfig) 0 = 3 * pi / 2"
    by (simp add: nominalTheta_def real_mod_def exampleConfig_spokes)
  from wedge_angle [OF h(1,2), of 0] wedge_angle [OF h(1,2), of 90] wedge_angle [OF h(3,4), of 45]
  show ?thesis using h t t0 by simp
qed

section \<open>The radar service\<close>

lemma connectToRadar_fetched_missing:
  assumes "radarId \<noteq> []" and "map_of radars radarId = None"
  shows "connectToRadar_fetched s (Some radarId) (Radars radars) =
           catchConnect (notFound radarId radars) s"
  using assms by (simp add: connectToRadar_fetched_def chooseRadar_def)


lemma exampleRadars_keys: "map fst exampleRadars = [''radar-0'']"
  by (simp add: exampleRadars_def)

lemma map_of_exampleRadars_other: "map_of exampleRadars ''radar-9'' = None"
  by (simp add: exampleRadars_def)

lemma first_connect:
  "connectToRadar (newService None) radarId (Radars exampleRadars) =
     connectToRadar_fetched
       ((newService None)\<lparr>connecting_value := True, requests := [''http://localhost:3001/v1/api/radars'']\<rparr>)
       radarId (Radars exampleRadars)"
  by (simp add: connectToRadar_def newService_def baseUrl_def)

text \<open>
  C8, as the code has it. When the discovery answer arrives, a non-empty explicit id that
  is no property of the discovery object makes \<open>connectToRadar\<close> fail with the error
  \<open>Radar <id> not found. Available radars: <ids>\<close>, the ids being all keys of the object
  joined by a comma and a space; the error is sent on \<open>error$\<close>, \<open>connecting$\<close> is set
  to false, and no socket is made. A call made while neither connecting nor connected
  gets this far.
\<close>

theorem connect_unknown_id:
  assumes "radarId \<noteq> []" and "map_of radars radarId = None"
    and "radarId \<notin> set objectPrototypeKeys"
  shows "connectToRadar_fetched s (Some radarId) (Radars radars) =
       (Some (Error (''Radar '' @ radarId @ '' not found. Available radars: '' @
                     joinWith '', '' (map fst radars))),
        s\<lparr>connecting_value := False,
          errors := errors s @
            [''Failed to connect to radar: Error: Radar '' @ radarId @
             '' not found. Available radars: '' @ joinWith '', '' (map fst radars)]\<rparr>) \<and>
     (\<not> connecting_value s \<and> \<not> connected_value s \<longrightarrow>
        fst (connectToRadar s (Some radarId) (Radars radars)) =
          Some (Error (''Radar '' @ radarId @ '' not found. Available radars: '' @
                       joinWith '', '' (map fst radars))) \<and>
        sockets (snd (connectToRadar s (Some radarId) (Radars radars))) = sockets s \<and>
        webSocket (snd (connectToRadar s (Some radarId) (Radars radars))) = webSocket s \<and>
        connected_value (snd (connectToRadar s (Some radarId) (Radars radars))) = False \<and>
        connecting_value (snd (connectToRadar s (Some radarId) (Radars radars))) = False \<and>
        errors (snd (connectToRadar s (Some radarId) (Radars radars))) =
          errors s @
            [''Failed to connect to radar: Error: Radar '' @ radarId @
             '' not found. Available radars: '' @ joinWith '', '' (map fst radars)])"
proof -
  have p: "printError (notFound radarId radars) =
      ''Error: Radar '' @ radarId @ '' not found. Available radars: '' @
        joinWith '', '' (map fst radars)"
    by (simp add: printError_def notFound_def)
  have f: "\<And>t. connectToRadar_fetched t (Some radarId) (Radars radars) =
       (Some (notFound radarId radars),
        t\<lparr>connecting_value := False,
          errors := errors t @ [''Failed to connect to radar: '' @
             printError (notFound radarId radars)]\<rparr>)"
    by (simp add: connectToRadar_fetched_missing [OF assms(1,2)] catchConnect_def)
  show ?thesis
    unfolding connectToRadar_def f p by (simp add: notFound_def)
qed

text \<open>The id \<open>radar-9\<close> against a discovery answer that has \<open>radar-0\<close> only.\<close>

theorem connect_unknown_id_witness:
  "''radar-9'' \<noteq> [] \<and> map_of exampleRadars ''radar-9'' = None \<and>
   ''radar-9'' \<notin> set objectPrototypeKeys \<and>
   \<not> connecting_value (newService None) \<and> \<not> connected_value (newService None) \<and>
   fst (connectToRadar (newService None) (Some ''radar-9'') (Radars exampleRadars)) =
     Some (Error ''Radar radar-9 not found. Available radars: radar-0'') \<and>
   sockets (snd (connectToRadar (newService None) (Some ''radar-9'') (Radars exampleRadars))) = [] \<and>
   errors (snd (connectToRadar (newService None) (Some ''radar-9'') (Radars exampleRadars))) =
     [''Failed to connect to radar: Error: Radar radar-9 not found. Available radars: radar-0'']"
proof -
  have h: "''radar-9'' \<noteq> []" "map_of exampleRadars ''radar-9'' = None"
    "''radar-9'' \<notin> set objectPrototypeKeys"
    by (simp_all add: map_of_exampleRadars_other objectPrototypeKeys_def)
  have n: "\<not> connecting_value (newService None)" "\<not> connected_value (newService None)"
    "sockets (newService None) = []" "errors (newService None) = []"
    by (simp_all add: newService_def)
  from connect_unknown_id [OF h, of "newService None"] h n show ?thesis
    by (simp add: exampleRadars_keys)
qed

text \<open>
  C8 as stated fails for the empty string: it is an explicit id and no key of the
  discovery object, yet \<open>if (!radarId)\<close> treats it as no id, the first radar is chosen and
  its socket is made, without any error.
\<close>

theorem connect_empty_id_counterexample:
  "map_of exampleRadars [] = None \<and>
   fst (connectToRadar (newService None) (Some []) (Radars exampleRadars)) = None \<and>
   map ws_url (sockets (snd (connectToRadar (newService None) (Some []) (Radars exampleRadars)))) =
     [''ws://localhost:3001/v1/api/stream/radar-0''] \<and>
   errors (snd (connectToRadar (newService None) (Some []) (Radars exampleRadars))) = []"
  unfolding first_connect
  by (simp add: connectToRadar_fetched_def chooseRadar_def exampleRadars_def Let_def
      connectWebSocket_def serverInfo_def newService_def)

lemma exampleConnected_eq:
  "exampleConnected =
     \<lparr>appRadar = None, connected_value = True, connecting_value = False,
      radarConfig = Some \<lparr>cfg_spokes = 2048, cfg_maxSpokeLen = 1024,
                           cfg_legend = [1 \<mapsto> ''#ff0000''], cfg_range = 1852\<rparr>,
      currentRadar = Some (serverInfo ''radar-0'' (snd (hd exampleRadars))),
      webSocket = Some 0,
      sockets = [\<lparr>ws_url = ''ws://localhost:3001/v1/api/stream/radar-0'', ws_promise = Resolved,
                  ws_closeCalled = False\<rparr>],
      timers = [TimeoutTimer 0 10000],
      published = [\<lparr>cfg_spokes = 2048, cfg_maxSpokeLen = 1024,
                    cfg_legend = [1 \<mapsto> ''#ff0000''], cfg_range = 1852\<rparr>],
      errors = [], requests = [''http://localhost:3001/v1/api/radars'']\<rparr>"
  unfolding exampleConnected_def first_connect
  by (simp add: connectToRadar_fetched_def chooseRadar_def exampleRadars_def Let_def
      connectWebSocket_def serverInfo_def newService_def onopen_def resolveSocket_def js_index_def)



text \<open>
  C9. With a config published, \<open>updateRange(meters)\<close> publishes the same config with
  \<open>range\<close> set to \<open>meters\<close>: \<open>spokes\<close>, \<open>maxSpokeLen\<close> and \<open>legend\<close> are as before,
  and no socket is made or closed, no request is sent, no timer is set.
\<close>

theorem updateRange_local:
  assumes "radarConfig s = Some c"
  shows "radarConfig (updateRange s meters) = Some (c\<lparr>cfg_range := meters\<rparr>) \<and>
     published (updateRange s meters) = published s @ [c\<lparr>cfg_range := meters\<rparr>] \<and>
     cfg_range (c\<lparr>cfg_range := meters\<rparr>) = meters \<and>
     cfg_spokes (c\<lparr>cfg_range := meters\<rparr>) = cfg_spokes c \<and>
     cfg_maxSpokeLen (c\<lparr>cfg_range := meters\<rparr>) = cfg_maxSpokeLen c \<and>
     cfg_legend (c\<lparr>cfg_range := meters\<rparr>) = cfg_legend c \<and>
     sockets (updateRange s meters) = sockets s \<and>
     webSocket (updateRange s meters) = webSocket s \<and>
     requests (updateRange s meters) = requests s \<and>
     timers (updateRange s meters) = timers s \<and>
     connected_value (updateRange s meters) = connected_value s \<and>
     connecting_value (updateRange s meters) = connecting_value s \<and>
     currentRadar (updateRange s meters) = currentRadar s"
  using assms by (simp add: updateRange_def)

text \<open>The range of the connected example service is set to 3704 m.\<close>

theorem updateRange_local_witness:
  "radarConfig exampleConnected =
     Some \<lparr>cfg_spokes = 2048, cfg_maxSpokeLen = 1024, cfg_legend = [1 \<mapsto> ''#ff0000''],
           cfg_range = 1852\<rparr> \<and>
   radarConfig (updateRange exampleConnected 3704) =
     Some \<lparr>cfg_spokes = 2048, cfg_maxSpokeLen = 1024, cfg_legend = [1 \<mapsto> ''#ff0000''],
           cfg_range = 3704\<rparr> \<and>
   sockets (updateRange exampleConnected 3704) = sockets exampleConnected"
proof -
  have c: "radarConfig exampleConnected =
     Some \<lparr>cfg_spokes = 2048, cfg_maxSpokeLen = 1024, cfg_legend = [1 \<mapsto> ''#ff0000''],
           cfg_range = 1852\<rparr>"
    by (simp add: exampleConnected_eq)
  from updateRange_local [OF c, of 3704] c show ?thesis by simp
qed











end
